theory Spec2Isabelle
  imports Complex_Main "HOL-Library.Word"
begin

section \<open>JavaScript values\<close>

text \<open>
  The client is the script \<^verbatim>\<open>frontend/app.js\<close>. A JavaScript string is a sequence of
  16-bit code units; the regular expressions of \<^verbatim>\<open>escapeHtml\<close> carry no \<^verbatim>\<open>u\<close> flag,
  so they work unit by unit, and \<^verbatim>\<open>.length\<close> counts units. \<open>js\<close> writes an ASCII
  literal of the source as such a string.
\<close>

type_synonym jschar = "16 word"
type_synonym jsstring = "jschar list"

definition js :: "string \<Rightarrow> jsstring" where
  "js s = map of_char s"

text \<open>
  A JavaScript number is a double: not-a-number, an infinity, or a finite value, which
  is a real number (\<open>-0\<close> and \<open>+0\<close> are not told apart; no operation modelled here
  does). Comparison of doubles is exact, and false as soon as one side is not a number.
\<close>

datatype jsnum = NaN | NegInf | Fin real | PosInf

fun num_le :: "jsnum \<Rightarrow> jsnum \<Rightarrow> bool" where
  "num_le NaN _ = False"
| "num_le _ NaN = False"
| "num_le NegInf _ = True"
| "num_le _ PosInf = True"
| "num_le (Fin a) (Fin b) = (a \<le> b)"
| "num_le (Fin _) NegInf = False"
| "num_le PosInf (Fin _) = False"
| "num_le PosInf NegInf = False"

definition num_ge :: "jsnum \<Rightarrow> jsnum \<Rightarrow> bool" where
  "num_ge a b = num_le b a"

text \<open>
  The values that \<^verbatim>\<open>res.json()\<close> returns, and \<^verbatim>\<open>undefined\<close>, which a read of a
  missing property gives. \<open>Obj\<close> lists the own properties of a parsed object.
\<close>

datatype jsval =
    Undefined
  | Null
  | Bool bool
  | Num jsnum
  | Str jsstring
  | Arr "jsval list"
  | Obj "(jsstring \<times> jsval) list"

text \<open>Every error thrown here is an \<^verbatim>\<open>Error\<close> object; the handler reads its message only.\<close>

datatype js_error =
    Error jsstring
  | TypeError jsstring
  | SyntaxError jsstring

fun message :: "js_error \<Rightarrow> jsstring" where
  "message (Error m) = m"
| "message (TypeError m) = m"
| "message (SyntaxError m) = m"

text \<open>
  What the script leaves to the JavaScript engine: the text of a number, the number of a
  text, the conversion of an array or object to a primitive (which runs the object's own
  \<^verbatim>\<open>toString\<close> and \<^verbatim>\<open>valueOf\<close> and can throw), \<^verbatim>\<open>toFixed(1)\<close>,
  \<^verbatim>\<open>toLocaleString()\<close>, and the wording of the engine's own \<^verbatim>\<open>TypeError\<close>s. These
  depend on floating-point formatting, on the locale and on the engine, so the model
  takes them as a parameter and every theorem holds for each engine.
\<close>

record engine =
  numberToString :: "jsnum \<Rightarrow> jsstring"
  stringToNumber :: "jsstring \<Rightarrow> jsnum"
  objectToString :: "jsval \<Rightarrow> js_error + jsstring"
  objectToNumber :: "jsval \<Rightarrow> js_error + jsnum"
  parseFloatStr :: "jsstring \<Rightarrow> jsnum"
  toFixed1 :: "jsnum \<Rightarrow> jsstring"
  toLocaleString :: "jsval \<Rightarrow> js_error + jsstring"
  nullishReadMessage :: "jsval \<Rightarrow> jsstring \<Rightarrow> jsstring"
  notFunctionMessage :: "jsstring \<Rightarrow> jsstring"

text \<open>Truthiness, as \<^verbatim>\<open>!x\<close>, \<^verbatim>\<open>x || y\<close> and \<^verbatim>\<open>x ? a : b\<close> test it.\<close>

fun truthy :: "jsval \<Rightarrow> bool" where
  "truthy Undefined = False"
| "truthy Null = False"
| "truthy (Bool b) = b"
| "truthy (Num NaN) = False"
| "truthy (Num (Fin r)) = (r \<noteq> 0)"
| "truthy (Num _) = True"
| "truthy (Str s) = (s \<noteq> [])"
| "truthy (Arr _) = True"
| "truthy (Obj _) = True"

definition or_js :: "jsval \<Rightarrow> jsval \<Rightarrow> jsval" where
  "or_js a b = (if truthy a then a else b)"

text \<open>The decimal text of a natural number, as a template literal prints an integer.\<close>

fun decimal :: "nat \<Rightarrow> jsstring" where
  "decimal n = (if n < 10 then [of_nat (48 + n)]
                else decimal (n div 10) @ [of_nat (48 + n mod 10)])"

declare decimal.simps [simp del]

text \<open>
  The property read \<^verbatim>\<open>v.k\<close> or \<^verbatim>\<open>v[k]\<close>: a \<^verbatim>\<open>TypeError\<close> on \<^verbatim>\<open>undefined\<close> and
  \<^verbatim>\<open>null\<close>; an own property of an object; the length and the indexed elements of an
  array or a string; \<^verbatim>\<open>undefined\<close> otherwise (none of the names the script reads is
  a method of a prototype).
\<close>

definition indexed :: "'a list \<Rightarrow> jsstring \<Rightarrow> 'a option" where
  "indexed xs k = map_of (zip (map decimal [0..<length xs]) xs) k"

fun get :: "engine \<Rightarrow> jsval \<Rightarrow> jsstring \<Rightarrow> js_error + jsval" where
  "get E Undefined k = Inl (TypeError (nullishReadMessage E Undefined k))"
| "get E Null k = Inl (TypeError (nullishReadMessage E Null k))"
| "get E (Obj ps) k = Inr (case map_of ps k of None \<Rightarrow> Undefined | Some v \<Rightarrow> v)"
| "get E (Arr xs) k =
     Inr (if k = js ''length'' then Num (Fin (real (length xs)))
          else case indexed xs k of None \<Rightarrow> Undefined | Some v \<Rightarrow> v)"
| "get E (Str s) k =
     Inr (if k = js ''length'' then Num (Fin (real (length s)))
          else case indexed s k of None \<Rightarrow> Undefined | Some c \<Rightarrow> Str [c])"
| "get E (Bool _) k = Inr Undefined"
| "get E (Num _) k = Inr Undefined"

text \<open>\<^verbatim>\<open>ToString\<close> and \<^verbatim>\<open>ToNumber\<close> of the language, with the engine's part delegated.\<close>

fun toStr :: "engine \<Rightarrow> jsval \<Rightarrow> js_error + jsstring" where
  "toStr E Undefined = Inr (js ''undefined'')"
| "toStr E Null = Inr (js ''null'')"
| "toStr E (Bool b) = Inr (if b then js ''true'' else js ''false'')"
| "toStr E (Num n) = Inr (numberToString E n)"
| "toStr E (Str s) = Inr s"
| "toStr E v = objectToString E v"

fun toNum :: "engine \<Rightarrow> jsval \<Rightarrow> js_error + jsnum" where
  "toNum E Undefined = Inr NaN"
| "toNum E Null = Inr (Fin 0)"
| "toNum E (Bool b) = Inr (Fin (if b then 1 else 0))"
| "toNum E (Num n) = Inr n"
| "toNum E (Str s) = Inr (stringToNumber E s)"
| "toNum E v = objectToNumber E v"

text \<open>
  \<^verbatim>\<open>parseFloat(x)\<close> parses the text of \<open>x\<close>; the text of a number parses back to that
  number.
\<close>

fun parseFloat :: "engine \<Rightarrow> jsval \<Rightarrow> js_error + jsnum" where
  "parseFloat E (Num n) = Inr n"
| "parseFloat E v = (case toStr E v of Inl e \<Rightarrow> Inl e | Inr s \<Rightarrow> Inr (parseFloatStr E s))"

section \<open>The state of the page\<close>

text \<open>
  A selected file, with the two attributes the script reads. The three globals of the
  script and the parts of the document it writes form one state; \<open>requests\<close> records
  the calls of \<^verbatim>\<open>fetch\<close>, oldest first. Every element the script looks up by its
  id is taken to exist. An entry of the file list and an entry of the list of pages are
  kept as the values that fill the holes of their template; the markup of the trigger
  control is the one the page came with or one of the two the script writes.
\<close>

record pending_file =
  file_name :: jsstring
  file_size :: nat

record file_item =
  item_name :: jsstring
  item_size :: jsstring
  item_remove :: nat

record page_item =
  body_id :: jsstring
  chev_id :: jsstring
  page_num :: jsstring
  page_conf_class :: jsstring
  page_conf :: jsstring
  page_words :: jsstring
  page_text :: jsstring

datatype btn_markup = PageMarkup | ProcessingMarkup | DefaultMarkup

record request =
  req_url :: jsstring
  req_method :: jsstring
  req_parts :: "(jsstring \<times> pending_file) list"

record state =
  selectedFiles :: "pending_file list"
  currentResult :: jsval
  startTime :: "int option"
  fileList_items :: "file_item list"
  processBtnWrap_display :: jsstring
  processBtn_disabled :: bool
  processBtn_innerHTML :: btn_markup
  panel_empty_display :: jsstring
  panel_loading_display :: jsstring
  panel_results_display :: jsstring
  res_pages :: jsstring
  res_words :: jsstring
  res_chars :: jsstring
  res_conf :: jsstring
  res_conf_class :: jsstring
  res_doc_badge :: jsstring
  res_text :: jsstring
  stat_processed :: jsstring
  stat_success :: jsstring
  stat_confidence :: jsstring
  stat_time :: jsstring
  pages_section_display :: jsstring
  pages_list :: "page_item list"
  toast_msg :: jsstring
  toast_show :: bool
  requests :: "request list"

section \<open>File selection\<close>

definition formatSize :: "engine \<Rightarrow> nat \<Rightarrow> jsstring" where
  "formatSize E bytes =
     (if bytes < 1024 then numberToString E (Fin (real bytes)) @ js '' B''
      else if bytes < 1048576 then toFixed1 E (Fin (real bytes / 1024)) @ js '' KB''
      else toFixed1 E (Fin (real bytes / 1048576)) @ js '' MB'')"

definition renderFileList :: "engine \<Rightarrow> state \<Rightarrow> state" where
  "renderFileList E s =
     (if selectedFiles s = []
      then s\<lparr>fileList_items := [], processBtnWrap_display := js ''none''\<rparr>
      else s\<lparr>fileList_items :=
                 map (\<lambda>(f, i). \<lparr>item_name = file_name f,
                                 item_size = formatSize E (file_size f),
                                 item_remove = i\<rparr>)
                     (zip (selectedFiles s) [0..<length (selectedFiles s)]),
              processBtnWrap_display := js ''block''\<rparr>)"

definition addFiles :: "engine \<Rightarrow> pending_file list \<Rightarrow> state \<Rightarrow> state" where
  "addFiles E files s = renderFileList E (s\<lparr>selectedFiles := selectedFiles s @ files\<rparr>)"

text \<open>
  \<^verbatim>\<open>xs.splice(index, 1)\<close> on an integer index: a negative start counts from the end
  and is clamped to 0, another start is clamped to the length; at most one element, and no
  more than remain from the start, is deleted.
\<close>

definition splice1 :: "'a list \<Rightarrow> int \<Rightarrow> 'a list" where
  "splice1 xs index =
     (let len = int (length xs);
          actualStart = (if index < 0 then max (len + index) 0 else min index len);
          actualDeleteCount = min (max 1 0) (len - actualStart)
      in take (nat actualStart) xs @ drop (nat (actualStart + actualDeleteCount)) xs)"

definition removeFile :: "engine \<Rightarrow> int \<Rightarrow> state \<Rightarrow> state" where
  "removeFile E index s =
     renderFileList E (s\<lparr>selectedFiles := splice1 (selectedFiles s) index\<rparr>)"

section \<open>Statements that may throw\<close>

text \<open>
  An expression either throws or has a value; a statement returns the state it has
  reached and the error it threw, if any. What a statement wrote before it threw stays
  written.
\<close>

definition bind :: "js_error + 'a \<Rightarrow> ('a \<Rightarrow> js_error + 'b) \<Rightarrow> js_error + 'b" where
  "bind m f = (case m of Inl e \<Rightarrow> Inl e | Inr v \<Rightarrow> f v)"

type_synonym stmt = "state \<Rightarrow> state \<times> js_error option"

definition evaluate :: "js_error + 'a \<Rightarrow> ('a \<Rightarrow> stmt) \<Rightarrow> stmt" where
  "evaluate rhs k s = (case rhs of Inl e \<Rightarrow> (s, Some e) | Inr v \<Rightarrow> k v s)"

definition assign :: "js_error + 'a \<Rightarrow> ('a \<Rightarrow> state \<Rightarrow> state) \<Rightarrow> stmt" where
  "assign rhs store = evaluate rhs (\<lambda>v s. (store v s, None))"

fun seq :: "stmt list \<Rightarrow> stmt" where
  "seq [] s = (s, None)"
| "seq (f # fs) s = (case f s of (s', None) \<Rightarrow> seq fs s' | (s', Some e) \<Rightarrow> (s', Some e))"

section \<open>Panels and notification\<close>

definition showPanel :: "jsstring \<Rightarrow> state \<Rightarrow> state" where
  "showPanel name s =
     (let s1 = s\<lparr>panel_empty_display := js ''none'',
                 panel_loading_display := js ''none'',
                 panel_results_display := js ''none''\<rparr>;
          s2 = (if name = js ''empty'' then s1\<lparr>panel_empty_display := js ''flex''\<rparr> else s1);
          s3 = (if name = js ''loading'' then s2\<lparr>panel_loading_display := js ''block''\<rparr> else s2)
      in if name = js ''results'' then s3\<lparr>panel_results_display := js ''block''\<rparr> else s3)"

text \<open>The timer that hides the notification 2.5 seconds later is not part of the model.\<close>

definition showToast :: "jsstring \<Rightarrow> state \<Rightarrow> state" where
  "showToast msg s = s\<lparr>toast_msg := msg, toast_show := True\<rparr>"

section \<open>Rendering a result\<close>

definition replaceAll :: "jschar \<Rightarrow> jsstring \<Rightarrow> jsstring \<Rightarrow> jsstring" where
  "replaceAll c r str = concat (map (\<lambda>x. if x = c then r else [x]) str)"

text \<open>
  \<^verbatim>\<open>str.replace\<close> exists on a string only: the other values a response can hold have
  no such method, or hold something that is not a function under that name.
\<close>

fun escapeHtml :: "engine \<Rightarrow> jsval \<Rightarrow> js_error + jsstring" where
  "escapeHtml E (Str str) =
     Inr (replaceAll (of_char CHR ''>'') (js ''&gt;'')
           (replaceAll (of_char CHR ''<'') (js ''&lt;'')
             (replaceAll (of_char CHR ''&'') (js ''&amp;'') str)))"
| "escapeHtml E Undefined = Inl (TypeError (nullishReadMessage E Undefined (js ''replace'')))"
| "escapeHtml E Null = Inl (TypeError (nullishReadMessage E Null (js ''replace'')))"
| "escapeHtml E v = Inl (TypeError (notFunctionMessage E (js ''str.replace'')))"

definition page_confClass :: "jsnum \<Rightarrow> jsstring" where
  "page_confClass conf =
     (if num_ge conf (Fin 90) then js ''high''
      else if num_ge conf (Fin 70) then js ''mid'' else js ''low'')"

text \<open>\<^verbatim>\<open>parseFloat(page.confidence || 0)\<close>\<close>

definition page_confidence :: "engine \<Rightarrow> jsval \<Rightarrow> js_error + jsnum" where
  "page_confidence E page =
     bind (get E page (js ''confidence'')) (\<lambda>confidence.
       parseFloat E (or_js confidence (Num (Fin 0))))"

text \<open>The body of the \<^verbatim>\<open>forEach\<close> callback of \<^verbatim>\<open>renderPages\<close>, up to the element it appends.\<close>

definition renderPage :: "engine \<Rightarrow> jsval \<Rightarrow> nat \<Rightarrow> js_error + page_item" where
  "renderPage E page i =
     bind (get E page (js ''page_number'')) (\<lambda>page_number.
     let num = or_js page_number (Num (Fin (real i + 1))) in
     bind (page_confidence E page) (\<lambda>conf.
     bind (get E page (js ''word_count'')) (\<lambda>word_count.
     let words = or_js word_count (Num (Fin 0));
         confClass = page_confClass conf;
         id = js ''page-body-'' @ decimal i;
         chevId = js ''chev-'' @ decimal i
     in
     bind (toStr E num) (\<lambda>num_text.
     bind (toStr E words) (\<lambda>words_text.
     bind (get E page (js ''text'')) (\<lambda>text.
     bind (escapeHtml E (or_js text (Str (js ''No text'')))) (\<lambda>escaped.
       Inr \<lparr>body_id = id, chev_id = chevId, page_num = num_text,
            page_conf_class = confClass, page_conf = toFixed1 E conf,
            page_words = words_text, page_text = escaped\<rparr>)))))))"

fun forEach_page :: "engine \<Rightarrow> jsval list \<Rightarrow> nat \<Rightarrow> stmt" where
  "forEach_page E [] i s = (s, None)"
| "forEach_page E (page # rest) i s =
     (case renderPage E page i of
        Inl e \<Rightarrow> (s, Some e)
      | Inr item \<Rightarrow> forEach_page E rest (Suc i) (s\<lparr>pages_list := pages_list s @ [item]\<rparr>))"

definition renderPages :: "engine \<Rightarrow> jsval \<Rightarrow> stmt" where
  "renderPages E pages s0 =
     (let s = s0\<lparr>pages_list := []\<rparr> in
      if \<not> truthy pages then (s\<lparr>pages_section_display := js ''none''\<rparr>, None)
      else case bind (get E pages (js ''length'')) (toNum E) of
             Inl e \<Rightarrow> (s, Some e)
           | Inr len \<Rightarrow>
               if num_le len (Fin 1) then (s\<lparr>pages_section_display := js ''none''\<rparr>, None)
               else let s' = s\<lparr>pages_section_display := js ''block''\<rparr> in
                    (case pages of
                       Arr xs \<Rightarrow> forEach_page E xs 0 s'
                     | _ \<Rightarrow> (s', Some (TypeError (notFunctionMessage E (js ''pages.forEach''))))))"

definition updateStats :: "engine \<Rightarrow> jsval \<Rightarrow> jsnum \<Rightarrow> jsnum \<Rightarrow> stmt" where
  "updateStats E pages conf elapsed =
     seq [assign (toStr E pages) (\<lambda>t s. s\<lparr>stat_processed := t\<rparr>),
          (\<lambda>s. (s\<lparr>stat_success := js ''100%'',
                   stat_confidence := toFixed1 E conf @ js ''%'',
                   stat_time := numberToString E elapsed @ js ''s''\<rparr>, None))]"

definition summary_confClass :: "jsnum \<Rightarrow> jsstring" where
  "summary_confClass conf =
     js ''meta-value '' @ (if num_ge conf (Fin 90) then js ''green''
                           else if num_ge conf (Fin 70) then js ''yellow'' else js ''red'')"

text \<open>The two badges; the dash of each label is the code unit U+2014.\<close>

definition scanned_badge :: jsstring where
  "scanned_badge = js ''<div class=\"doc-type-badge scanned\">Scanned document '' @ [0x2014]
                   @ js '' OCR applied</div>''"

definition text_badge :: jsstring where
  "text_badge = js ''<div class=\"doc-type-badge text\">Text-based PDF '' @ [0x2014]
                @ js '' Direct extraction</div>''"

definition doc_badge :: "jsval \<Rightarrow> jsstring" where
  "doc_badge is_scanned =
     (if is_scanned \<noteq> Undefined
      then (if truthy is_scanned then scanned_badge else text_badge)
      else [])"

text \<open>\<^verbatim>\<open>parseFloat(data.average_confidence || data.confidence || 0)\<close>\<close>

definition summary_confidence :: "engine \<Rightarrow> jsval \<Rightarrow> js_error + jsnum" where
  "summary_confidence E data =
     bind (get E data (js ''average_confidence'')) (\<lambda>average_confidence.
     bind (if truthy average_confidence then Inr average_confidence
           else bind (get E data (js ''confidence'')) (\<lambda>confidence.
                  Inr (or_js confidence (Num (Fin 0))))) (parseFloat E))"

definition renderResults :: "engine \<Rightarrow> jsval \<Rightarrow> jsnum \<Rightarrow> stmt" where
  "renderResults E data elapsed s =
     (case bind (summary_confidence E data) (\<lambda>conf.
           bind (get E data (js ''page_count'')) (\<lambda>page_count.
           bind (get E data (js ''total_words'')) (\<lambda>total_words.
           bind (get E data (js ''total_characters'')) (\<lambda>total_characters.
             Inr (conf, or_js page_count (Num (Fin 1)), or_js total_words (Num (Fin 0)),
                  or_js total_characters (Num (Fin 0))))))) of
        Inl e \<Rightarrow> (s, Some e)
      | Inr (conf, pages, words, chars) \<Rightarrow>
          seq [assign (toStr E pages) (\<lambda>t s. s\<lparr>res_pages := t\<rparr>),
               assign (toLocaleString E words) (\<lambda>t s. s\<lparr>res_words := t\<rparr>),
               assign (toLocaleString E chars) (\<lambda>t s. s\<lparr>res_chars := t\<rparr>),
               (\<lambda>s. (s\<lparr>res_conf := toFixed1 E conf @ js ''%'',
                        res_conf_class := summary_confClass conf\<rparr>, None)),
               assign (get E data (js ''is_scanned''))
                      (\<lambda>is_scanned s. s\<lparr>res_doc_badge := doc_badge is_scanned\<rparr>),
               assign (bind (get E data (js ''text''))
                            (\<lambda>text. toStr E (or_js text (Str (js ''No text extracted'')))))
                      (\<lambda>t s. s\<lparr>res_text := t\<rparr>),
               updateStats E pages conf elapsed,
               evaluate (get E data (js ''pages'')) (renderPages E)] s)"

section \<open>Submission\<close>

text \<open>
  One attempt, with what the environment answers: the two readings of the clock, and
  the outcome of \<^verbatim>\<open>fetch\<close>, which rejects or resolves to a response whose body is
  JSON or is not. A response is \<^verbatim>\<open>ok\<close> when its status is 200 to 299. No other
  handler runs between the steps of an attempt, and an attempt whose request never
  settles has no end and is not described.
\<close>

datatype body = Invalid js_error | Json jsval

record response =
  resp_status :: nat
  resp_body :: body

datatype fetch_result = Rejected js_error | Resolved response

record environment =
  now_started :: int
  fetched :: fetch_result
  now_finished :: int

definition ok :: "response \<Rightarrow> bool" where
  "ok res = (200 \<le> resp_status res \<and> resp_status res \<le> 299)"

definition API :: jsstring where
  "API = js ''http://localhost:8000''"

definition failure_of :: "engine \<Rightarrow> response \<Rightarrow> js_error" where
  "failure_of E res =
     (let err = (case resp_body res of Invalid _ \<Rightarrow> Obj [] | Json v \<Rightarrow> v) in
      case bind (get E err (js ''detail'')) (\<lambda>detail.
             toStr E (or_js detail (Str (js ''HTTP '' @ decimal (resp_status res))))) of
        Inl e \<Rightarrow> e
      | Inr m \<Rightarrow> Error m)"

definition first_ocr_result :: "engine \<Rightarrow> jsval \<Rightarrow> js_error + jsval" where
  "first_ocr_result E apiResponse =
     bind (get E apiResponse (js ''results'')) (\<lambda>results.
       if \<not> truthy results then Inl (Error (js ''No OCR results returned from server''))
       else bind (get E results (js ''length'')) (\<lambda>len.
         if \<not> truthy len then Inl (Error (js ''No OCR results returned from server''))
         else bind (get E results (js ''0'')) (\<lambda>first. get E first (js ''ocr_result''))))"

definition try_block :: "engine \<Rightarrow> environment \<Rightarrow> stmt" where
  "try_block E env s0 =
     (let s = s0\<lparr>requests := requests s0 @
                   [\<lparr>req_url = API @ js ''/ocr/process'', req_method = js ''POST'',
                     req_parts = map (\<lambda>f. (js ''files'', f)) (selectedFiles s0)\<rparr>]\<rparr> in
      case fetched env of
        Rejected e \<Rightarrow> (s, Some e)
      | Resolved res \<Rightarrow>
          if \<not> ok res then (s, Some (failure_of E res))
          else (case resp_body res of
                  Invalid e \<Rightarrow> (s, Some e)
                | Json apiResponse \<Rightarrow>
                    (case first_ocr_result E apiResponse of
                       Inl e \<Rightarrow> (s, Some e)
                     | Inr firstDoc \<Rightarrow>
                         let elapsed = toFixed1 E (Fin (real_of_int (now_finished env
                                         - (case startTime s of None \<Rightarrow> 0 | Some t \<Rightarrow> t)) / 1000))
                         in seq [renderResults E firstDoc (parseFloatStr E elapsed),
                                 (\<lambda>s. (showPanel (js ''results'') s, None))]
                                (s\<lparr>currentResult := firstDoc\<rparr>))))"

text \<open>
  \<^verbatim>\<open>processFiles\<close>: the statements before \<^verbatim>\<open>try\<close>, then the \<^verbatim>\<open>try\<close> block, the
  \<^verbatim>\<open>catch\<close> block when it threw, and the \<^verbatim>\<open>finally\<close> block in either case.
\<close>

definition before_try :: "environment \<Rightarrow> state \<Rightarrow> state" where
  "before_try env s =
     (showPanel (js ''loading'')
        (s\<lparr>processBtn_disabled := True, processBtn_innerHTML := ProcessingMarkup\<rparr>))
      \<lparr>startTime := Some (now_started env)\<rparr>"

definition catch_block :: "js_error \<Rightarrow> state \<Rightarrow> state" where
  "catch_block err s = showPanel (js ''empty'') (showToast (js ''Error: '' @ message err) s)"

definition finally_block :: "state \<Rightarrow> state" where
  "finally_block s = s\<lparr>processBtn_disabled := False, processBtn_innerHTML := DefaultMarkup\<rparr>"

definition processFiles :: "engine \<Rightarrow> environment \<Rightarrow> state \<Rightarrow> state" where
  "processFiles E env s =
     (if selectedFiles s = [] then s
      else finally_block
             (case try_block E env (before_try env s) of
                (s', None) \<Rightarrow> s'
              | (s', Some err) \<Rightarrow> catch_block err s'))"

section \<open>What the specification says of escaping\<close>

text \<open>
  Following the specification: each \<^verbatim>\<open>&\<close> becomes \<^verbatim>\<open>&amp;\<close>, each \<^verbatim>\<open><\<close> becomes
  \<^verbatim>\<open>&lt;\<close>, each \<^verbatim>\<open>>\<close> becomes \<^verbatim>\<open>&gt;\<close>, and nothing is escaped twice.
\<close>

definition spec_escape :: "jschar \<Rightarrow> jsstring" where
  "spec_escape c =
     (if c = of_char CHR ''&'' then js ''&amp;''
      else if c = of_char CHR ''<'' then js ''&lt;''
      else if c = of_char CHR ''>'' then js ''&gt;''
      else [c])"

section \<open>An engine and a page to run the script on\<close>

text \<open>
  For the examples: an engine that prints and reads numbers as every engine does where
  nothing depends on floating-point rounding (integers and numbers with one decimal
  digit; texts of digits with an optional sign and fraction), groups thousands as the
  locale \<^verbatim>\<open>en-US\<close> does, prints an object as an object without methods of its own is
  printed, and words its errors as V8 does. No example below gives it anything else.
\<close>

definition signed :: "real \<Rightarrow> jsstring \<Rightarrow> jsstring" where
  "signed r digits = (if r < 0 then js ''-'' @ digits else digits)"

definition fixed1 :: "real \<Rightarrow> jsstring" where
  "fixed1 r = (let n = nat \<lfloor>\<bar>r\<bar> * 10 + 1 / 2\<rfloor>
               in signed r (decimal (n div 10) @ js ''.'' @ decimal (n mod 10)))"

definition number_text :: "jsnum \<Rightarrow> jsstring" where
  "number_text n =
     (case n of
        NaN \<Rightarrow> js ''NaN''
      | NegInf \<Rightarrow> js ''-Infinity''
      | PosInf \<Rightarrow> js ''Infinity''
      | Fin r \<Rightarrow> if r = of_int \<lfloor>r\<rfloor> then signed r (decimal (nat \<lfloor>\<bar>r\<bar>\<rfloor>)) else fixed1 r)"

definition fixed1_text :: "jsnum \<Rightarrow> jsstring" where
  "fixed1_text n = (case n of Fin r \<Rightarrow> fixed1 r | _ \<Rightarrow> number_text n)"

fun digits_value :: "jsstring \<Rightarrow> nat option" where
  "digits_value [] = None"
| "digits_value cs =
     (if list_all (\<lambda>c. 48 \<le> unat c \<and> unat c \<le> 57) cs
      then Some (foldl (\<lambda>acc c. 10 * acc + (unat c - 48)) 0 cs) else None)"

definition unsigned_value :: "jsstring \<Rightarrow> jsnum" where
  "unsigned_value cs =
     (let whole = takeWhile (\<lambda>c. c \<noteq> of_char CHR ''.'') cs;
          rest = dropWhile (\<lambda>c. c \<noteq> of_char CHR ''.'') cs
      in case (digits_value whole, rest) of
           (Some w, []) \<Rightarrow> Fin (real w)
         | (Some w, _ # fraction) \<Rightarrow>
             (case digits_value fraction of
                Some f \<Rightarrow> Fin (real w + real f / 10 ^ length fraction)
              | None \<Rightarrow> NaN)
         | (None, _) \<Rightarrow> NaN)"

definition number_value :: "jsstring \<Rightarrow> jsnum" where
  "number_value cs =
     (case cs of
        c # rest \<Rightarrow>
          if c = of_char CHR ''-''
          then (case unsigned_value rest of Fin r \<Rightarrow> Fin (- r) | n \<Rightarrow> n)
          else unsigned_value cs
      | [] \<Rightarrow> NaN)"

fun grouped :: "nat \<Rightarrow> jsstring" where
  "grouped n =
     (if n < 1000 then decimal n
      else grouped (n div 1000) @ js '','' @ decimal (n mod 1000 div 100)
           @ decimal (n mod 100 div 10) @ decimal (n mod 10))"

declare grouped.simps [simp del]

definition locale_text :: "jsval \<Rightarrow> js_error + jsstring" where
  "locale_text v =
     (case v of
        Num (Fin r) \<Rightarrow>
          Inr (if r = of_int \<lfloor>r\<rfloor> then signed r (grouped (nat \<lfloor>\<bar>r\<bar>\<rfloor>)) else fixed1 r)
      | Num n \<Rightarrow> Inr (number_text n)
      | Str s \<Rightarrow> Inr s
      | Bool b \<Rightarrow> Inr (if b then js ''true'' else js ''false'')
      | _ \<Rightarrow> Inr (js ''[object Object]''))"

definition sample_engine :: engine where
  "sample_engine =
     \<lparr>numberToString = number_text,
      stringToNumber = number_value,
      objectToString = (\<lambda>v. Inr (js ''[object Object]'')),
      objectToNumber = (\<lambda>v. Inr NaN),
      parseFloatStr = number_value,
      toFixed1 = fixed1_text,
      toLocaleString = locale_text,
      nullishReadMessage = (\<lambda>v k. js ''Cannot read properties of ''
                               @ (if v = Null then js ''null'' else js ''undefined'')
                               @ js '' (reading '' @ [0x27] @ k @ [0x27] @ js '')''),
      notFunctionMessage = (\<lambda>f. f @ js '' is not a function'')\<rparr>"

text \<open>
  The page when the script has loaded and written nothing yet: the globals as their
  declarations initialise them, no inline style, no text, no request sent.
\<close>

definition initial_state :: state where
  "initial_state =
     \<lparr>selectedFiles = [], currentResult = Null, startTime = None,
      fileList_items = [], processBtnWrap_display = [],
      processBtn_disabled = False, processBtn_innerHTML = PageMarkup,
      panel_empty_display = [], panel_loading_display = [], panel_results_display = [],
      res_pages = [], res_words = [], res_chars = [], res_conf = [], res_conf_class = [],
      res_doc_badge = [], res_text = [],
      stat_processed = [], stat_success = [], stat_confidence = [], stat_time = [],
      pages_section_display = [], pages_list = [],
      toast_msg = [], toast_show = False, requests = []\<rparr>"

text \<open>Inputs for the examples: selected files, OCR results, and answers of the server.\<close>

definition file_a :: pending_file where
  "file_a = \<lparr>file_name = js ''a.pdf'', file_size = 2048\<rparr>"

definition file_b :: pending_file where
  "file_b = \<lparr>file_name = js ''b.png'', file_size = 512\<rparr>"

definition file_c :: pending_file where
  "file_c = \<lparr>file_name = js ''c.pdf'', file_size = 3145728\<rparr>"

definition one_selected :: state where
  "one_selected = addFiles sample_engine [file_a] initial_state"

definition page_of :: "nat \<Rightarrow> real \<Rightarrow> nat \<Rightarrow> string \<Rightarrow> jsval" where
  "page_of n c w t =
     Obj [(js ''page_number'', Num (Fin (real n))), (js ''confidence'', Num (Fin c)),
          (js ''word_count'', Num (Fin (real w))), (js ''text'', Str (js t))]"

definition result_of :: "jsval \<Rightarrow> jsval list \<Rightarrow> jsval" where
  "result_of flag ps =
     Obj [(js ''text'', Str (js ''Hello'')), (js ''average_confidence'', Num (Fin (185 / 2))),
          (js ''page_count'', Num (Fin 2)), (js ''total_words'', Num (Fin 1)),
          (js ''total_characters'', Num (Fin 5)), (js ''is_scanned'', flag),
          (js ''pages'', Arr ps)]"

definition hello_result :: jsval where
  "hello_result = result_of (Bool True) [page_of 1 95 1 ''Hello'', page_of 2 90 0 []]"

definition faint_result :: jsval where
  "faint_result =
     Obj [(js ''text'', Str (js ''faint'')), (js ''average_confidence'', Num (Fin (699 / 10))),
          (js ''pages'', Arr [page_of 1 (899 / 10) 3 ''faint'', page_of 2 50 1 ''fainter''])]"

definition fair_result :: jsval where
  "fair_result =
     Obj [(js ''text'', Str (js ''fair'')), (js ''confidence'', Num (Fin 70)),
          (js ''pages'', Arr [page_of 1 (699 / 10) 2 ''fair'', page_of 2 70 2 ''fairer''])]"

definition answer :: "fetch_result \<Rightarrow> environment" where
  "answer r = \<lparr>now_started = 1000, fetched = r, now_finished = 2500\<rparr>"

definition responded :: "nat \<Rightarrow> body \<Rightarrow> environment" where
  "responded code b = answer (Resolved \<lparr>resp_status = code, resp_body = b\<rparr>)"

definition results_body :: "jsval list \<Rightarrow> body" where
  "results_body docs = Json (Obj [(js ''results'', Arr docs)])"

definition detail_body :: "jsval \<Rightarrow> body" where
  "detail_body d = Json (Obj [(js ''detail'', d)])"

section \<open>Facts about the building blocks\<close>

lemma decimal_0: "decimal 0 = js ''0''"
  by (simp add: decimal.simps js_def)

lemma indexed_0: "indexed (x # xs) (js ''0'') = Some x"
proof -
  have h: "[0..<length (x # xs)] = 0 # [Suc 0..<length (x # xs)]"
    by (rule upt_conv_Cons) simp
  show ?thesis
    by (simp only: indexed_def h decimal_0 [symmetric]) simp
qed

lemma bind_Inr: "bind m f = Inr y \<Longrightarrow> \<exists>x. m = Inr x \<and> f x = Inr y"
  by (cases m) (simp_all add: bind_def)

lemma seq_Cons_None:
  "seq (f # fs) s = (s', None) \<longleftrightarrow> (\<exists>s1. f s = (s1, None) \<and> seq fs s1 = (s', None))"
  by (cases "f s") (auto split: option.splits)

lemma seq_Nil_None: "seq [] s = (s', None) \<longleftrightarrow> s' = s"
  by auto

lemma evaluate_None:
  "evaluate rhs k s = (s1, None) \<longleftrightarrow> (\<exists>v. rhs = Inr v \<and> k v s = (s1, None))"
  by (cases rhs) (auto simp: evaluate_def)

lemma assign_None:
  "assign rhs store s = (s1, None) \<longleftrightarrow> (\<exists>v. rhs = Inr v \<and> s1 = store v s)"
  by (auto simp: assign_def evaluate_None)

subsection \<open>The pending list\<close>

lemma splice1_beyond: "int (length xs) \<le> i \<Longrightarrow> splice1 xs i = xs"
  by (simp add: splice1_def Let_def)

lemma splice1_inside:
  "0 \<le> i \<Longrightarrow> i < int (length xs) \<Longrightarrow> splice1 xs i = take (nat i) xs @ drop (Suc (nat i)) xs"
  by (simp add: splice1_def Let_def nat_add_distrib)

lemma splice1_negative:
  "i < 0 \<Longrightarrow> xs \<noteq> [] \<Longrightarrow>
   splice1 xs i = take (nat (int (length xs) + i)) xs @ drop (Suc (nat (int (length xs) + i))) xs"
  by (auto simp add: splice1_def Let_def max_def min_def nat_add_distrib)

lemma length_without:
  "k < length xs \<Longrightarrow> length (take k xs @ drop (Suc k) xs) = length xs - 1"
  by auto

lemma nth_without:
  "k < length xs \<Longrightarrow> j < length xs - 1 \<Longrightarrow>
   (take k xs @ drop (Suc k) xs) ! j = (if j < k then xs ! j else xs ! Suc j)"
  by (auto simp add: nth_append min_def)

lemma selectedFiles_renderFileList [simp]:
  "selectedFiles (renderFileList E s) = selectedFiles s"
  by (simp add: renderFileList_def)

lemma selectedFiles_addFiles: "selectedFiles (addFiles E files s) = selectedFiles s @ files"
  by (simp add: addFiles_def)

lemma selectedFiles_removeFile:
  "selectedFiles (removeFile E i s) = splice1 (selectedFiles s) i"
  by (simp add: removeFile_def)

subsection \<open>Escaping\<close>

lemma replaceAll_Nil [simp]: "replaceAll c r [] = []"
  by (simp add: replaceAll_def)

lemma replaceAll_Cons [simp]:
  "replaceAll c r (x # xs) = (if x = c then r else [x]) @ replaceAll c r xs"
  by (simp add: replaceAll_def)

lemma replaceAll_append [simp]:
  "replaceAll c r (xs @ ys) = replaceAll c r xs @ replaceAll c r ys"
  by (simp add: replaceAll_def)

lemma three_passes:
  "replaceAll (of_char CHR ''>'') (js ''&gt;'')
     (replaceAll (of_char CHR ''<'') (js ''&lt;'')
       (replaceAll (of_char CHR ''&'') (js ''&amp;'') str)) = concat (map spec_escape str)"
proof (induction str)
  case Nil
  show ?case by simp
next
  case (Cons x xs)
  have "replaceAll (of_char CHR ''>'') (js ''&gt;'')
          (replaceAll (of_char CHR ''<'') (js ''&lt;'')
            (if x = of_char CHR ''&'' then js ''&amp;'' else [x])) = spec_escape x"
    by (simp add: spec_escape_def js_def)
  with Cons show ?case by simp
qed

lemma spec_escape_clean:
  "of_char CHR ''<'' \<notin> set (spec_escape c) \<and> of_char CHR ''>'' \<notin> set (spec_escape c)"
  by (simp add: spec_escape_def js_def)

lemma escapeHtml_Str: "escapeHtml E (Str str) = Inr (concat (map spec_escape str))"
  using three_passes [of str] by simp

lemma escapeHtml_clean:
  assumes "escapeHtml E v = Inr out"
  shows "of_char CHR ''<'' \<notin> set out \<and> of_char CHR ''>'' \<notin> set out"
proof (cases v)
  case (Str str)
  with assms escapeHtml_Str [of E str] have "out = concat (map spec_escape str)"
    by simp
  then show ?thesis using spec_escape_clean by auto
qed (use assms in simp_all)

subsection \<open>Pages\<close>

lemma renderPage_text:
  assumes "renderPage E page i = Inr item"
  shows "\<exists>text. get E page (js ''text'') = Inr text \<and>
           escapeHtml E (or_js text (Str (js ''No text''))) = Inr (page_text item)"
  using assms unfolding renderPage_def Let_def
  by (auto dest!: bind_Inr)

lemma renderPage_class:
  assumes "renderPage E page i = Inr item"
  shows "\<exists>conf. page_confidence E page = Inr conf \<and> page_conf_class item = page_confClass conf"
  using assms unfolding renderPage_def Let_def
  by (auto dest!: bind_Inr)

lemma forEach_page_list:
  "(\<forall>item \<in> set (pages_list s). P item) \<Longrightarrow>
   (\<And>page i item. renderPage E page i = Inr item \<Longrightarrow> P item) \<Longrightarrow>
   \<forall>item \<in> set (pages_list (fst (forEach_page E xs i s))). P item"
proof (induction xs arbitrary: i s)
  case Nil
  then show ?case by simp
next
  case (Cons page rest)
  show ?case
  proof (cases "renderPage E page i")
    case (Inl e)
    with Cons.prems show ?thesis by simp
  next
    case (Inr item)
    have "\<forall>it \<in> set (pages_list (s\<lparr>pages_list := pages_list s @ [item]\<rparr>)). P it"
      using Cons.prems Inr by auto
    from Cons.IH [OF this Cons.prems(2)] Inr show ?thesis by simp
  qed
qed

lemma forEach_page_frame [simp]:
  "pages_section_display (fst (forEach_page E xs i s)) = pages_section_display s"
  "res_doc_badge (fst (forEach_page E xs i s)) = res_doc_badge s"
  "res_conf_class (fst (forEach_page E xs i s)) = res_conf_class s"
  by (induction xs arbitrary: i s; simp split: sum.splits)+

lemma forEach_page_length:
  "snd (forEach_page E xs i s) = None \<Longrightarrow>
   length (pages_list (fst (forEach_page E xs i s))) = length (pages_list s) + length xs"
  by (induction xs arbitrary: i s) (auto split: sum.splits)

lemma forEach_page_all2:
  assumes step: "\<And>page i item. renderPage E page i = Inr item \<Longrightarrow> P page item"
  shows "snd (forEach_page E xs i s) = None \<Longrightarrow>
         \<exists>items. pages_list (fst (forEach_page E xs i s)) = pages_list s @ items \<and>
                 list_all2 P xs items"
proof (induction xs arbitrary: i s)
  case Nil
  then show ?case by simp
next
  case (Cons page rest)
  show ?case
  proof (cases "renderPage E page i")
    case (Inl e)
    with Cons.prems show ?thesis by simp
  next
    case (Inr item)
    let ?s = "s\<lparr>pages_list := pages_list s @ [item]\<rparr>"
    from Cons.prems Inr have "snd (forEach_page E rest (Suc i) ?s) = None" by simp
    from Cons.IH [OF this] obtain items where
      "pages_list (fst (forEach_page E rest (Suc i) ?s)) = pages_list ?s @ items"
      and "list_all2 P rest items"
      by blast
    with Inr step [OF Inr] have
      "pages_list (fst (forEach_page E (page # rest) i s)) = pages_list s @ (item # items) \<and>
       list_all2 P (page # rest) (item # items)"
      by simp
    then show ?thesis by blast
  qed
qed

lemma renderPages_all2:
  assumes step: "\<And>page i item. renderPage E page i = Inr item \<Longrightarrow> P page item"
    and "1 < length ps" and "snd (renderPages E (Arr ps) s) = None"
  shows "list_all2 P ps (pages_list (fst (renderPages E (Arr ps) s)))"
proof -
  let ?s0 = "s\<lparr>pages_list := [], pages_section_display := js ''block''\<rparr>"
  from assms(2) have eq: "renderPages E (Arr ps) s = forEach_page E ps 0 ?s0"
    by (simp add: renderPages_def Let_def bind_def)
  with assms(3) have "snd (forEach_page E ps 0 ?s0) = None" by simp
  from forEach_page_all2 [where P = P, OF step this] eq show ?thesis by auto
qed

lemma renderPages_list_cases:
  "pages_list (fst (renderPages E pages s)) = [] \<or>
   (\<exists>xs. fst (renderPages E pages s) =
      fst (forEach_page E xs 0 (s\<lparr>pages_list := [], pages_section_display := js ''block''\<rparr>)))"
  unfolding renderPages_def Let_def
  by (cases pages) (auto simp del: get.simps split: sum.splits)

lemma renderPages_clean:
  "\<forall>item \<in> set (pages_list (fst (renderPages E pages s))).
      of_char CHR ''<'' \<notin> set (page_text item) \<and> of_char CHR ''>'' \<notin> set (page_text item)"
proof -
  let ?P = "\<lambda>item. of_char CHR ''<'' \<notin> set (page_text item) \<and>
                    of_char CHR ''>'' \<notin> set (page_text item)"
  let ?s0 = "s\<lparr>pages_list := [], pages_section_display := js ''block''\<rparr>"
  have step: "\<And>page i item. renderPage E page i = Inr item \<Longrightarrow> ?P item"
    using renderPage_text escapeHtml_clean by blast
  have loop: "\<And>xs. \<forall>item \<in> set (pages_list (fst (forEach_page E xs 0 ?s0))). ?P item"
    by (rule forEach_page_list) (simp, rule step)
  from renderPages_list_cases [of E pages s] show ?thesis
  proof
    assume "pages_list (fst (renderPages E pages s)) = []"
    then show ?thesis by simp
  next
    assume "\<exists>xs. fst (renderPages E pages s) = fst (forEach_page E xs 0 ?s0)"
    then obtain xs where "fst (renderPages E pages s) = fst (forEach_page E xs 0 ?s0)"
      by blast
    with loop [of xs] show ?thesis by simp
  qed
qed

lemma renderPages_display_Arr:
  "pages_section_display (fst (renderPages E (Arr ps) s)) =
     (if 1 < length ps then js ''block'' else js ''none'')"
  by (simp add: renderPages_def Let_def bind_def)

lemma renderPages_display_missing:
  "pages_section_display (fst (renderPages E Undefined s)) = js ''none''"
  "pages_section_display (fst (renderPages E Null s)) = js ''none''"
  by (simp_all add: renderPages_def Let_def bind_def)

lemma renderPages_list_short:
  "length ps \<le> 1 \<Longrightarrow> pages_list (fst (renderPages E (Arr ps) s)) = []"
  by (simp add: renderPages_def Let_def bind_def)

lemma renderPages_list_long:
  "1 < length ps \<Longrightarrow> snd (renderPages E (Arr ps) s) = None \<Longrightarrow>
   length (pages_list (fst (renderPages E (Arr ps) s))) = length ps"
  by (simp add: renderPages_def Let_def bind_def forEach_page_length)

lemma renderPages_frame:
  "renderPages E pages s = (s', r) \<Longrightarrow>
   res_doc_badge s' = res_doc_badge s \<and> res_conf_class s' = res_conf_class s"
  unfolding renderPages_def Let_def
  by (cases pages)
     (auto simp del: get.simps split: sum.splits if_splits dest!: arg_cong [where f = fst])

subsection \<open>The summary\<close>

lemma updateStats_frame:
  "updateStats E pages conf elapsed s = (s', r) \<Longrightarrow>
   res_doc_badge s' = res_doc_badge s \<and> res_conf_class s' = res_conf_class s"
  unfolding updateStats_def
  by (cases "toStr E pages") (auto simp: assign_def evaluate_def)

lemma renderResults_badge:
  assumes "renderResults E data elapsed s = (s', None)"
  shows "\<exists>v. get E data (js ''is_scanned'') = Inr v \<and> res_doc_badge s' = doc_badge v"
  using assms unfolding renderResults_def
  by (auto simp: seq_Cons_None seq_Nil_None assign_None evaluate_None simp del: seq.simps
           split: sum.splits dest!: renderPages_frame updateStats_frame)

lemma renderResults_class:
  assumes "renderResults E data elapsed s = (s', None)"
  shows "\<exists>conf. summary_confidence E data = Inr conf \<and> res_conf_class s' = summary_confClass conf"
  using assms unfolding renderResults_def
  by (auto simp: seq_Cons_None seq_Nil_None assign_None evaluate_None simp del: seq.simps
           split: sum.splits dest!: renderPages_frame updateStats_frame bind_Inr)

lemma renderResults_pages:
  assumes "renderResults E data elapsed s = (s', None)"
  shows "\<exists>p s1. get E data (js ''pages'') = Inr p \<and> renderPages E p s1 = (s', None)"
  using assms unfolding renderResults_def
  apply (auto simp: seq_Cons_None seq_Nil_None assign_None evaluate_None simp del: seq.simps
           split: sum.splits)
  apply (rule exI)
  apply assumption
  done

lemma badges_differ: "scanned_badge \<noteq> text_badge \<and> scanned_badge \<noteq> [] \<and> text_badge \<noteq> []"
  by (simp add: scanned_badge_def text_badge_def js_def)

subsection \<open>Submission\<close>

lemma showPanel_frame [simp]:
  "currentResult (showPanel n s) = currentResult s"
  "selectedFiles (showPanel n s) = selectedFiles s"
  "requests (showPanel n s) = requests s"
  "toast_msg (showPanel n s) = toast_msg s"
  by (simp_all add: showPanel_def Let_def)

lemma before_try_frame [simp]:
  "currentResult (before_try env s) = currentResult s"
  "selectedFiles (before_try env s) = selectedFiles s"
  by (simp_all add: before_try_def)

lemma catch_block_frame [simp]:
  "currentResult (catch_block err s) = currentResult s"
  "toast_msg (catch_block err s) = js ''Error: '' @ message err"
  by (simp_all add: catch_block_def showToast_def)

lemma finally_block_frame [simp]:
  "currentResult (finally_block s) = currentResult s"
  "toast_msg (finally_block s) = toast_msg s"
  "processBtn_disabled (finally_block s) = False"
  "processBtn_innerHTML (finally_block s) = DefaultMarkup"
  by (simp_all add: finally_block_def)

lemma before_try_button:
  "processBtn_disabled (before_try env s) = True"
  "processBtn_innerHTML (before_try env s) = ProcessingMarkup"
  by (simp_all add: before_try_def showPanel_def Let_def)

lemma try_block_rejected:
  "fetched env = Rejected e \<Longrightarrow>
   snd (try_block E env s) = Some e \<and> currentResult (fst (try_block E env s)) = currentResult s"
  by (simp add: try_block_def Let_def)

lemma try_block_not_ok:
  "fetched env = Resolved res \<Longrightarrow> \<not> ok res \<Longrightarrow>
   snd (try_block E env s) = Some (failure_of E res) \<and>
   currentResult (fst (try_block E env s)) = currentResult s"
  by (simp add: try_block_def Let_def)

lemma try_block_no_result:
  "fetched env = Resolved res \<Longrightarrow> ok res \<Longrightarrow> resp_body res = Json v \<Longrightarrow>
   first_ocr_result E v = Inl e \<Longrightarrow>
   snd (try_block E env s) = Some e \<and> currentResult (fst (try_block E env s)) = currentResult s"
  by (simp add: try_block_def Let_def)

lemma processFiles_caught:
  "selectedFiles s \<noteq> [] \<Longrightarrow> snd (try_block E env (before_try env s)) = Some err \<Longrightarrow>
   toast_msg (processFiles E env s) = js ''Error: '' @ message err \<and>
   currentResult (processFiles E env s) =
     currentResult (fst (try_block E env (before_try env s)))"
  by (auto simp add: processFiles_def split: prod.splits option.splits)

lemma failure_of_truthy_detail:
  "resp_body res = Json (Obj ps) \<Longrightarrow> map_of ps (js ''detail'') = Some v \<Longrightarrow> truthy v \<Longrightarrow>
   toStr E v = Inr t \<Longrightarrow> failure_of E res = Error t"
  by (simp add: failure_of_def bind_def or_js_def)

lemma failure_of_invalid:
  "resp_body res = Invalid e \<Longrightarrow>
   failure_of E res = Error (js ''HTTP '' @ decimal (resp_status res))"
  by (simp add: failure_of_def bind_def or_js_def)

lemma failure_of_falsy_detail:
  "resp_body res = Json v \<Longrightarrow> get E v (js ''detail'') = Inr d \<Longrightarrow> \<not> truthy d \<Longrightarrow>
   failure_of E res = Error (js ''HTTP '' @ decimal (resp_status res))"
  by (simp add: failure_of_def bind_def or_js_def)

lemma first_ocr_result_none:
  "get E v (js ''results'') = Inr r \<Longrightarrow> \<not> truthy r \<or> r = Arr [] \<Longrightarrow>
   first_ocr_result E v = Inl (Error (js ''No OCR results returned from server''))"
  by (auto simp add: first_ocr_result_def bind_def)

subsection \<open>Confidence read from the payload\<close>

lemma page_confidence_Num:
  "get E page (js ''confidence'') = Inr (Num (Fin w)) \<Longrightarrow> page_confidence E page = Inr (Fin w)"
  by (simp add: page_confidence_def bind_def or_js_def)

lemma summary_confidence_average:
  "get E data (js ''average_confidence'') = Inr (Num (Fin v)) \<Longrightarrow> v \<noteq> 0 \<Longrightarrow>
   summary_confidence E data = Inr (Fin v)"
  by (simp add: summary_confidence_def bind_def)

lemma summary_confidence_fallback:
  "get E data (js ''average_confidence'') = Inr a \<Longrightarrow> \<not> truthy a \<Longrightarrow>
   get E data (js ''confidence'') = Inr (Num (Fin v)) \<Longrightarrow>
   summary_confidence E data = Inr (Fin v)"
  by (simp add: summary_confidence_def bind_def or_js_def)

lemma summary_confidence_default:
  "get E data (js ''average_confidence'') = Inr a \<Longrightarrow> \<not> truthy a \<Longrightarrow>
   get E data (js ''confidence'') = Inr c \<Longrightarrow> \<not> truthy c \<Longrightarrow>
   summary_confidence E data = Inr (Fin 0)"
  by (simp add: summary_confidence_def bind_def or_js_def)

lemma page_confClass_tier:
  "page_confClass (Fin w) = (if 90 \<le> w then js ''high'' else if 70 \<le> w then js ''mid'' else js ''low'')"
  by (simp add: page_confClass_def num_ge_def)

lemma summary_confClass_tier:
  "summary_confClass (Fin v) =
     (if 90 \<le> v then js ''meta-value green''
      else if 70 \<le> v then js ''meta-value yellow'' else js ''meta-value red'')"
  by (simp add: summary_confClass_def num_ge_def js_def)

lemma renderPage_tier:
  assumes "renderPage E page i = Inr item"
  shows "\<forall>w. get E page (js ''confidence'') = Inr (Num (Fin w)) \<longrightarrow>
           page_conf_class item =
             (if 90 \<le> w then js ''high'' else if 70 \<le> w then js ''mid'' else js ''low'')"
proof (intro allI impI)
  fix w assume g: "get E page (js ''confidence'') = Inr (Num (Fin w))"
  from renderPage_class [OF assms] obtain conf where
    c: "page_confidence E page = Inr conf" and k: "page_conf_class item = page_confClass conf"
    by blast
  from page_confidence_Num [OF g] c have "conf = Fin w" by simp
  with k show "page_conf_class item =
             (if 90 \<le> w then js ''high'' else if 70 \<le> w then js ''mid'' else js ''low'')"
    by (simp only: page_confClass_tier)
qed

lemma renderResults_tier:
  assumes "snd (renderResults E data elapsed s) = None"
    and "summary_confidence E data = Inr (Fin v)"
  shows "res_conf_class (fst (renderResults E data elapsed s)) =
     (if 90 \<le> v then js ''meta-value green''
      else if 70 \<le> v then js ''meta-value yellow'' else js ''meta-value red'')"
proof -
  from assms(1) have "renderResults E data elapsed s = (fst (renderResults E data elapsed s), None)"
    by (metis prod.collapse)
  from renderResults_class [OF this] assms(2)
  have "res_conf_class (fst (renderResults E data elapsed s)) = summary_confClass (Fin v)"
    by auto
  then show ?thesis by (simp only: summary_confClass_tier)
qed

lemma renderPage_tiers:
  assumes "renderPage E page i = Inr item"
  shows "(\<forall>w. get E page (js ''confidence'') = Inr (Num (Fin w)) \<longrightarrow>
            page_conf_class item =
              (if 90 \<le> w then js ''high'' else if 70 \<le> w then js ''mid'' else js ''low''))
       \<and> (\<forall>c. get E page (js ''confidence'') = Inr c \<and> \<not> truthy c \<longrightarrow>
            page_conf_class item = js ''low'')"
proof -
  have "\<forall>c. get E page (js ''confidence'') = Inr c \<and> \<not> truthy c \<longrightarrow>
            page_conf_class item = js ''low''"
  proof (intro allI impI, elim conjE)
    fix c assume g: "get E page (js ''confidence'') = Inr c" and f: "\<not> truthy c"
    from renderPage_class [OF assms] obtain conf where
      c: "page_confidence E page = Inr conf" and k: "page_conf_class item = page_confClass conf"
      by blast
    from g f have "page_confidence E page = Inr (Fin 0)"
      by (simp add: page_confidence_def bind_def or_js_def)
    with c have "conf = Fin 0" by simp
    with k show "page_conf_class item = js ''low''"
      by (simp add: page_confClass_tier)
  qed
  with renderPage_tier [OF assms] show ?thesis by blast
qed

subsection \<open>More on failures\<close>

lemma try_block_invalid:
  "fetched env = Resolved res \<Longrightarrow> ok res \<Longrightarrow> resp_body res = Invalid e \<Longrightarrow>
   snd (try_block E env s) = Some e \<and> currentResult (fst (try_block E env s)) = currentResult s"
  by (simp add: try_block_def Let_def)

lemma failure_of_detail:
  "resp_body res = Json v \<Longrightarrow> get E v (js ''detail'') = Inr x \<Longrightarrow> truthy x \<Longrightarrow>
   toStr E x = Inr t \<Longrightarrow> failure_of E res = Error t"
  by (simp add: failure_of_def bind_def or_js_def)

lemma failure_of_detail_throws:
  "resp_body res = Json v \<Longrightarrow> get E v (js ''detail'') = Inr x \<Longrightarrow> truthy x \<Longrightarrow>
   toStr E x = Inl e \<Longrightarrow> failure_of E res = e"
  by (simp add: failure_of_def bind_def or_js_def)

lemma failure_of_unreadable:
  "resp_body res = Json v \<Longrightarrow> get E v (js ''detail'') = Inl e \<Longrightarrow> failure_of E res = e"
  by (simp add: failure_of_def bind_def)

lemma first_ocr_result_unreadable:
  "get E v (js ''results'') = Inl e \<Longrightarrow> first_ocr_result E v = Inl e"
  by (simp add: first_ocr_result_def bind_def)

subsection \<open>Running the examples\<close>

lemmas run_simps = renderPages_def renderPage_def page_confidence_def bind_def or_js_def Let_def
  page_confClass_def num_ge_def sample_engine_def fixed1_text_def fixed1_def number_text_def
  signed_def page_of_def decimal.simps js_def initial_state_def indexed_def

lemmas run_render = renderResults_def summary_confidence_def assign_def evaluate_def
  updateStats_def locale_text_def grouped.simps summary_confClass_def doc_badge_def
  hello_result_def result_of_def scanned_badge_def text_badge_def

lemmas run_submit = processFiles_def before_try_def try_block_def catch_block_def
  finally_block_def showPanel_def showToast_def failure_of_def first_ocr_result_def ok_def
  answer_def responded_def results_body_def detail_body_def one_selected_def addFiles_def
  renderFileList_def formatSize_def file_a_def file_b_def file_c_def API_def removeFile_def
  splice1_def

lemma one_selected_files: "selectedFiles one_selected = [file_a]"
  by (simp add: one_selected_def selectedFiles_addFiles initial_state_def)

lemma one_selected_nonempty: "selectedFiles one_selected \<noteq> []"
  by (simp add: one_selected_files)

lemma answer_simps [simp]:
  "fetched (answer r) = r"
  "fetched (responded code b) = Resolved \<lparr>resp_status = code, resp_body = b\<rparr>"
  by (simp_all add: answer_def responded_def)

lemma two_selected: "selectedFiles (addFiles sample_engine [file_a, file_b] initial_state) = [file_a, file_b]"
  by (simp add: selectedFiles_addFiles initial_state_def)

section \<open>The claims\<close>

subsection \<open>C1: escaping of page text\<close>

text \<open>
  C1. For every string, \<^verbatim>\<open>escapeHtml\<close> replaces every \<^verbatim>\<open>&\<close> by \<^verbatim>\<open>&amp;\<close>, every
  \<^verbatim>\<open><\<close> by \<^verbatim>\<open>&lt;\<close> and every \<^verbatim>\<open>>\<close> by \<^verbatim>\<open>&gt;\<close>: the three passes of the source,
  \<^verbatim>\<open>&\<close> first, give what one pass over the units of the input gives, so nothing is
  escaped twice. The result holds no \<^verbatim>\<open><\<close> and no \<^verbatim>\<open>>\<close>, and neither does the text of
  any entry that \<^verbatim>\<open>renderPages\<close> has put in the list of pages, whatever the pages were.
\<close>
theorem escapeHtml_escapes:
  "escapeHtml E (Str str) = Inr (concat (map spec_escape str))
   \<and> of_char CHR ''<'' \<notin> set (concat (map spec_escape str))
   \<and> of_char CHR ''>'' \<notin> set (concat (map spec_escape str))
   \<and> (\<forall>item \<in> set (pages_list (fst (renderPages E pages s))).
         of_char CHR ''<'' \<notin> set (page_text item) \<and> of_char CHR ''>'' \<notin> set (page_text item))"
proof -
  have "of_char CHR ''<'' \<notin> set (concat (map spec_escape str)) \<and>
        of_char CHR ''>'' \<notin> set (concat (map spec_escape str))"
    using spec_escape_clean by auto
  with escapeHtml_Str [of E str] renderPages_clean [of E pages s] show ?thesis
    by blast
qed

text \<open>
  C1 on two pages, the first holding a script element: both entries are rendered, and the
  first entry, which is in the list, holds the escaped text.
\<close>
theorem escapeHtml_escapes_witness:
  "hd (pages_list (fst (renderPages sample_engine
         (Arr [page_of 1 95 1 ''<script>alert(1)</script>'', page_of 2 90 0 ''a & b'']) initial_state)))
     \<in> set (pages_list (fst (renderPages sample_engine
         (Arr [page_of 1 95 1 ''<script>alert(1)</script>'', page_of 2 90 0 ''a & b'']) initial_state)))
   \<and> map page_text (pages_list (fst (renderPages sample_engine
         (Arr [page_of 1 95 1 ''<script>alert(1)</script>'', page_of 2 90 0 ''a & b'']) initial_state)))
       = [js ''&lt;script&gt;alert(1)&lt;/script&gt;'', js ''a &amp; b'']
   \<and> of_char CHR ''<'' \<notin> set (page_text (hd (pages_list (fst (renderPages sample_engine
         (Arr [page_of 1 95 1 ''<script>alert(1)</script>'', page_of 2 90 0 ''a & b'']) initial_state)))))
   \<and> of_char CHR ''>'' \<notin> set (page_text (hd (pages_list (fst (renderPages sample_engine
         (Arr [page_of 1 95 1 ''<script>alert(1)</script>'', page_of 2 90 0 ''a & b'']) initial_state)))))"
proof -
  let ?X = "fst (renderPages sample_engine
         (Arr [page_of 1 95 1 ''<script>alert(1)</script>'', page_of 2 90 0 ''a & b'']) initial_state)"
  have l: "map page_text (pages_list ?X) = [js ''&lt;script&gt;alert(1)&lt;/script&gt;'', js ''a &amp; b'']"
    by (simp add: run_simps)
  then have ne: "pages_list ?X \<noteq> []" by auto
  then have m: "hd (pages_list ?X) \<in> set (pages_list ?X)" by simp
  from escapeHtml_escapes [of sample_engine "[]" "Arr [page_of 1 95 1 ''<script>alert(1)</script>'', page_of 2 90 0 ''a & b'']" initial_state] m
  have "of_char CHR ''<'' \<notin> set (page_text (hd (pages_list ?X))) \<and> of_char CHR ''>'' \<notin> set (page_text (hd (pages_list ?X)))"
    by blast
  with l m show ?thesis by blast
qed

subsection \<open>C2: confidence tiers\<close>

text \<open>
  C2. The tier depends on the number alone, by the same thresholds for the summary and for
  a page: a value of at least 90 gets the good tier (class \<^verbatim>\<open>green\<close> in the summary,
  \<^verbatim>\<open>high\<close> on a page), a value of at least 70 and less than 90 the warning tier
  (\<^verbatim>\<open>yellow\<close>, \<^verbatim>\<open>mid\<close>), a value less than 70 the critical tier (\<^verbatim>\<open>red\<close>,
  \<^verbatim>\<open>low\<close>). A completed \<^verbatim>\<open>renderResults\<close> has given the summary the tier of the
  aggregate confidence, and a completed \<^verbatim>\<open>renderPages\<close> has given each entry the tier of
  the confidence of its own page. The confidence is the one the payload carries: for a
  result whose \<^verbatim>\<open>average_confidence\<close> is a number other than 0 the summary has the tier
  of that number; when that field is missing or falsy, the tier of the number in
  \<^verbatim>\<open>confidence\<close>, and the critical tier when that is missing or falsy too; an entry has
  the tier of the number in the \<^verbatim>\<open>confidence\<close> of its page, and the critical tier when
  the page has none, both after \<^verbatim>\<open>renderPages\<close> and after \<^verbatim>\<open>renderResults\<close>.
\<close>
theorem confidence_tiers:
  "(90 \<le> v \<longrightarrow> summary_confClass (Fin v) = js ''meta-value green'' \<and> page_confClass (Fin v) = js ''high'')
   \<and> (70 \<le> v \<and> v < 90 \<longrightarrow>
        summary_confClass (Fin v) = js ''meta-value yellow'' \<and> page_confClass (Fin v) = js ''mid'')
   \<and> (v < 70 \<longrightarrow> summary_confClass (Fin v) = js ''meta-value red'' \<and> page_confClass (Fin v) = js ''low'')
   \<and> (snd (renderResults E data elapsed s) = None \<longrightarrow>
        (\<exists>conf. summary_confidence E data = Inr conf \<and>
                res_conf_class (fst (renderResults E data elapsed s)) = summary_confClass conf))
   \<and> (1 < length ps \<and> snd (renderPages E (Arr ps) s) = None \<longrightarrow>
        list_all2 (\<lambda>page item. \<exists>conf. page_confidence E page = Inr conf \<and>
                                       page_conf_class item = page_confClass conf)
                  ps (pages_list (fst (renderPages E (Arr ps) s))))
   \<and> (snd (renderResults E data elapsed s) = None \<and>
      get E data (js ''average_confidence'') = Inr (Num (Fin v)) \<and> v \<noteq> 0 \<longrightarrow>
        res_conf_class (fst (renderResults E data elapsed s)) =
          (if 90 \<le> v then js ''meta-value green''
           else if 70 \<le> v then js ''meta-value yellow'' else js ''meta-value red''))
   \<and> (snd (renderResults E data elapsed s) = None \<and>
      get E data (js ''average_confidence'') = Inr a \<and> \<not> truthy a \<and>
      get E data (js ''confidence'') = Inr (Num (Fin v)) \<longrightarrow>
        res_conf_class (fst (renderResults E data elapsed s)) =
          (if 90 \<le> v then js ''meta-value green''
           else if 70 \<le> v then js ''meta-value yellow'' else js ''meta-value red''))
   \<and> (snd (renderResults E data elapsed s) = None \<and>
      get E data (js ''average_confidence'') = Inr a \<and> \<not> truthy a \<and>
      get E data (js ''confidence'') = Inr c \<and> \<not> truthy c \<longrightarrow>
        res_conf_class (fst (renderResults E data elapsed s)) = js ''meta-value red'')
   \<and> (1 < length ps \<and> snd (renderPages E (Arr ps) s) = None \<longrightarrow>
        list_all2 (\<lambda>page item.
            (\<forall>w. get E page (js ''confidence'') = Inr (Num (Fin w)) \<longrightarrow>
               page_conf_class item =
                 (if 90 \<le> w then js ''high'' else if 70 \<le> w then js ''mid'' else js ''low''))
          \<and> (\<forall>c. get E page (js ''confidence'') = Inr c \<and> \<not> truthy c \<longrightarrow>
               page_conf_class item = js ''low''))
          ps (pages_list (fst (renderPages E (Arr ps) s))))
   \<and> (1 < length ps \<and> snd (renderResults E data elapsed s) = None \<and>
      get E data (js ''pages'') = Inr (Arr ps) \<longrightarrow>
        list_all2 (\<lambda>page item.
            (\<forall>w. get E page (js ''confidence'') = Inr (Num (Fin w)) \<longrightarrow>
               page_conf_class item =
                 (if 90 \<le> w then js ''high'' else if 70 \<le> w then js ''mid'' else js ''low''))
          \<and> (\<forall>c. get E page (js ''confidence'') = Inr c \<and> \<not> truthy c \<longrightarrow>
               page_conf_class item = js ''low''))
          ps (pages_list (fst (renderResults E data elapsed s))))"
proof -
  let ?R = "renderResults E data elapsed s"
  let ?T = "\<lambda>page item.
            (\<forall>w. get E page (js ''confidence'') = Inr (Num (Fin w)) \<longrightarrow>
               page_conf_class item =
                 (if 90 \<le> w then js ''high'' else if 70 \<le> w then js ''mid'' else js ''low''))
          \<and> (\<forall>c. get E page (js ''confidence'') = Inr c \<and> \<not> truthy c \<longrightarrow>
               page_conf_class item = js ''low'')"
  have tiers: "(90 \<le> v \<longrightarrow> summary_confClass (Fin v) = js ''meta-value green'' \<and> page_confClass (Fin v) = js ''high'')
   \<and> (70 \<le> v \<and> v < 90 \<longrightarrow>
        summary_confClass (Fin v) = js ''meta-value yellow'' \<and> page_confClass (Fin v) = js ''mid'')
   \<and> (v < 70 \<longrightarrow> summary_confClass (Fin v) = js ''meta-value red'' \<and> page_confClass (Fin v) = js ''low'')"
    by (simp add: summary_confClass_def page_confClass_def num_ge_def js_def)
  have summary: "snd ?R = None \<longrightarrow>
        (\<exists>conf. summary_confidence E data = Inr conf \<and>
                res_conf_class (fst ?R) = summary_confClass conf)"
    using renderResults_class [of E data elapsed s "fst ?R"]
    by (metis prod.collapse)
  have pages: "1 < length ps \<and> snd (renderPages E (Arr ps) s) = None \<longrightarrow>
        list_all2 (\<lambda>page item. \<exists>conf. page_confidence E page = Inr conf \<and>
                                       page_conf_class item = page_confClass conf)
                  ps (pages_list (fst (renderPages E (Arr ps) s)))"
  proof (intro impI, elim conjE)
    assume a: "1 < length ps" and b: "snd (renderPages E (Arr ps) s) = None"
    show "list_all2 (\<lambda>page item. \<exists>conf. page_confidence E page = Inr conf \<and>
                                       page_conf_class item = page_confClass conf)
                  ps (pages_list (fst (renderPages E (Arr ps) s)))"
      by (rule renderPages_all2 [OF _ a b]) (rule renderPage_class)
  qed
  have s1: "snd ?R = None \<and> get E data (js ''average_confidence'') = Inr (Num (Fin v)) \<and> v \<noteq> 0 \<longrightarrow>
        res_conf_class (fst ?R) =
          (if 90 \<le> v then js ''meta-value green''
           else if 70 \<le> v then js ''meta-value yellow'' else js ''meta-value red'')"
    using renderResults_tier summary_confidence_average by blast
  have s2: "snd ?R = None \<and> get E data (js ''average_confidence'') = Inr a \<and> \<not> truthy a \<and>
      get E data (js ''confidence'') = Inr (Num (Fin v)) \<longrightarrow>
        res_conf_class (fst ?R) =
          (if 90 \<le> v then js ''meta-value green''
           else if 70 \<le> v then js ''meta-value yellow'' else js ''meta-value red'')"
    using renderResults_tier summary_confidence_fallback by blast
  have s3: "snd ?R = None \<and> get E data (js ''average_confidence'') = Inr a \<and> \<not> truthy a \<and>
      get E data (js ''confidence'') = Inr c \<and> \<not> truthy c \<longrightarrow>
        res_conf_class (fst ?R) = js ''meta-value red''"
  proof (intro impI, elim conjE)
    assume n: "snd ?R = None" and g: "get E data (js ''average_confidence'') = Inr a" "\<not> truthy a"
      "get E data (js ''confidence'') = Inr c" "\<not> truthy c"
    from renderResults_tier [OF n summary_confidence_default [OF g]]
    show "res_conf_class (fst ?R) = js ''meta-value red''" by simp
  qed
  have p1: "\<And>s0. 1 < length ps \<Longrightarrow> snd (renderPages E (Arr ps) s0) = None \<Longrightarrow>
        list_all2 ?T ps (pages_list (fst (renderPages E (Arr ps) s0)))"
  proof -
    fix s0 assume a: "1 < length ps" and b: "snd (renderPages E (Arr ps) s0) = None"
    show "list_all2 ?T ps (pages_list (fst (renderPages E (Arr ps) s0)))"
      by (rule renderPages_all2 [OF _ a b]) (rule renderPage_tiers)
  qed
  have p2: "1 < length ps \<and> snd ?R = None \<and> get E data (js ''pages'') = Inr (Arr ps) \<longrightarrow>
        list_all2 ?T ps (pages_list (fst ?R))"
  proof (intro impI, elim conjE)
    assume l: "1 < length ps" and a: "snd ?R = None"
      and b: "get E data (js ''pages'') = Inr (Arr ps)"
    from a have "?R = (fst ?R, None)" by (metis prod.collapse)
    from renderResults_pages [OF this] b obtain s1 where
      r: "renderPages E (Arr ps) s1 = (fst ?R, None)"
      by auto
    then have "snd (renderPages E (Arr ps) s1) = None" by simp
    from p1 [OF l this] r show "list_all2 ?T ps (pages_list (fst ?R))" by simp
  qed
  from tiers summary pages s1 s2 s3 p1 [of s] p2 show ?thesis by blast
qed

text \<open>
  C2 at the six values of the specification (95, 90, 89.9, 70, 69.9 and 0), and rendered
  end to end in each tier: the result of the specification's example (92.5, pages of 95
  and 90), a result of 69.9 with pages of 89.9 and 50, and a result that carries 70 in
  \<^verbatim>\<open>confidence\<close> only, with pages of 69.9 and 70.
\<close>
theorem confidence_tiers_witness:
  "summary_confClass (Fin 95) = js ''meta-value green'' \<and> page_confClass (Fin 95) = js ''high''
   \<and> summary_confClass (Fin 90) = js ''meta-value green'' \<and> page_confClass (Fin 90) = js ''high''
   \<and> summary_confClass (Fin (899 / 10)) = js ''meta-value yellow'' \<and> page_confClass (Fin (899 / 10)) = js ''mid''
   \<and> summary_confClass (Fin 70) = js ''meta-value yellow'' \<and> page_confClass (Fin 70) = js ''mid''
   \<and> summary_confClass (Fin (699 / 10)) = js ''meta-value red'' \<and> page_confClass (Fin (699 / 10)) = js ''low''
   \<and> summary_confClass (Fin 0) = js ''meta-value red'' \<and> page_confClass (Fin 0) = js ''low''
   \<and> snd (renderResults sample_engine hello_result (Fin (3 / 2)) initial_state) = None
   \<and> res_conf_class (fst (renderResults sample_engine hello_result (Fin (3 / 2)) initial_state)) = js ''meta-value green''
   \<and> map page_conf_class (pages_list (fst (renderResults sample_engine hello_result (Fin (3 / 2)) initial_state)))
       = [js ''high'', js ''high'']
   \<and> snd (renderResults sample_engine faint_result (Fin (3 / 2)) initial_state) = None
   \<and> get sample_engine faint_result (js ''average_confidence'') = Inr (Num (Fin (699 / 10)))
   \<and> res_conf_class (fst (renderResults sample_engine faint_result (Fin (3 / 2)) initial_state)) = js ''meta-value red''
   \<and> map page_conf_class (pages_list (fst (renderResults sample_engine faint_result (Fin (3 / 2)) initial_state)))
       = [js ''mid'', js ''low'']
   \<and> snd (renderResults sample_engine fair_result (Fin (3 / 2)) initial_state) = None
   \<and> get sample_engine fair_result (js ''average_confidence'') = Inr Undefined
   \<and> get sample_engine fair_result (js ''confidence'') = Inr (Num (Fin 70))
   \<and> res_conf_class (fst (renderResults sample_engine fair_result (Fin (3 / 2)) initial_state)) = js ''meta-value yellow''
   \<and> map page_conf_class (pages_list (fst (renderResults sample_engine fair_result (Fin (3 / 2)) initial_state)))
       = [js ''low'', js ''mid'']"
proof -
  have r: "snd (renderResults sample_engine hello_result (Fin (3 / 2)) initial_state) = None
   \<and> res_conf_class (fst (renderResults sample_engine hello_result (Fin (3 / 2)) initial_state)) = js ''meta-value green''
   \<and> map page_conf_class (pages_list (fst (renderResults sample_engine hello_result (Fin (3 / 2)) initial_state)))
       = [js ''high'', js ''high'']"
    by (simp add: run_render run_simps)
  have fn: "snd (renderResults sample_engine faint_result (Fin (3 / 2)) initial_state) = None"
    by (simp add: faint_result_def run_render run_simps)
  have fp: "map page_conf_class (pages_list (fst (renderResults sample_engine faint_result (Fin (3 / 2)) initial_state)))
       = [js ''mid'', js ''low'']"
    by (simp add: faint_result_def run_render run_simps)
  have fg: "get sample_engine faint_result (js ''average_confidence'') = Inr (Num (Fin (699 / 10)))"
    by (simp add: faint_result_def js_def)
  from confidence_tiers [where E = sample_engine and data = faint_result and elapsed = "Fin (3 / 2)"
      and s = initial_state and v = "699 / 10"] fn fg
  have fc: "res_conf_class (fst (renderResults sample_engine faint_result (Fin (3 / 2)) initial_state)) = js ''meta-value red''"
    by simp
  have gn: "snd (renderResults sample_engine fair_result (Fin (3 / 2)) initial_state) = None"
    by (simp add: fair_result_def run_render run_simps)
  have gp: "map page_conf_class (pages_list (fst (renderResults sample_engine fair_result (Fin (3 / 2)) initial_state)))
       = [js ''low'', js ''mid'']"
    by (simp add: fair_result_def run_render run_simps)
  have ga: "get sample_engine fair_result (js ''average_confidence'') = Inr Undefined"
    by (simp add: fair_result_def js_def)
  have gc: "get sample_engine fair_result (js ''confidence'') = Inr (Num (Fin 70))"
    by (simp add: fair_result_def js_def)
  from confidence_tiers [where E = sample_engine and data = fair_result and elapsed = "Fin (3 / 2)"
      and s = initial_state and v = 70 and a = Undefined] gn ga gc
  have gy: "res_conf_class (fst (renderResults sample_engine fair_result (Fin (3 / 2)) initial_state)) = js ''meta-value yellow''"
    by simp
  from confidence_tiers [where v = 95] confidence_tiers [where v = 90] confidence_tiers [where v = "899 / 10"]
    confidence_tiers [where v = 70] confidence_tiers [where v = "699 / 10"] confidence_tiers [where v = 0]
  have six: "summary_confClass (Fin 95) = js ''meta-value green'' \<and> page_confClass (Fin 95) = js ''high''
   \<and> summary_confClass (Fin 90) = js ''meta-value green'' \<and> page_confClass (Fin 90) = js ''high''
   \<and> summary_confClass (Fin (899 / 10)) = js ''meta-value yellow'' \<and> page_confClass (Fin (899 / 10)) = js ''mid''
   \<and> summary_confClass (Fin 70) = js ''meta-value yellow'' \<and> page_confClass (Fin 70) = js ''mid''
   \<and> summary_confClass (Fin (699 / 10)) = js ''meta-value red'' \<and> page_confClass (Fin (699 / 10)) = js ''low''
   \<and> summary_confClass (Fin 0) = js ''meta-value red'' \<and> page_confClass (Fin 0) = js ''low''"
    by simp
  from six r fn fg fc fp gn ga gc gy gp show ?thesis by blast
qed

subsection \<open>C3: the message of a failed submission\<close>

text \<open>
  C3 as written fails when the failure response carries the empty string as its detail:
  status 400 with the body \<^verbatim>\<open>{"detail": ""}\<close> gives \<^verbatim>\<open>Error: HTTP 400\<close>, not
  \<^verbatim>\<open>Error: \<close> followed by that detail, because \<^verbatim>\<open>err.detail || ...\<close> falls through on
  every falsy detail.
\<close>
theorem failure_message_empty_detail:
  "toast_msg (processFiles sample_engine (responded 400 (detail_body (Str []))) one_selected)
     = js ''Error: HTTP 400''
   \<and> toast_msg (processFiles sample_engine (responded 400 (detail_body (Str []))) one_selected)
     \<noteq> js ''Error: '' @ []"
  by (simp add: run_submit run_simps)

text \<open>
  C3, amended. After every failed attempt on a non-empty pending list, that is, whenever
  the \<^verbatim>\<open>try\<close> block throws, the notification is \<^verbatim>\<open>Error: \<close> followed by the message
  of the error thrown. That message is
  \<^item> the message of the error with which the request was rejected;
  \<^item> for a non-2xx response whose body is JSON from which \<^verbatim>\<open>detail\<close> can be read (any
    JSON but \<^verbatim>\<open>null\<close>): the detail itself when it is a non-empty string; the text the
    language gives any other truthy detail, or the message of the error that conversion
    throws; \<^verbatim>\<open>HTTP \<close> and the status when the detail is missing or falsy (the empty
    string, \<^verbatim>\<open>null\<close>, \<^verbatim>\<open>false\<close>, 0);
  \<^item> \<^verbatim>\<open>HTTP \<close> and the status, when the body of the non-2xx response is not JSON;
  \<^item> the engine's message for reading \<^verbatim>\<open>detail\<close> of \<^verbatim>\<open>null\<close>, when the body of the
    non-2xx response is the JSON \<^verbatim>\<open>null\<close>;
  \<^item> the message of the parse error, when the body of a 2xx response is not JSON;
  \<^item> \<^verbatim>\<open>No OCR results returned from server\<close>, when the body of a 2xx response is JSON
    from which \<^verbatim>\<open>results\<close> can be read and the results are missing, falsy or an empty
    array;
  \<^item> the message of the error raised while the first result is taken from a 2xx response
    (reading \<^verbatim>\<open>results\<close> of \<^verbatim>\<open>null\<close> for the JSON body \<^verbatim>\<open>null\<close>), and, by the first
    sentence, of any error raised while the result is rendered.
\<close>
theorem failure_message:
  assumes "selectedFiles s \<noteq> []"
  shows "(snd (try_block E env (before_try env s)) = Some err \<longrightarrow>
            toast_msg (processFiles E env s) = js ''Error: '' @ message err)
       \<and> (fetched env = Rejected e \<longrightarrow>
            toast_msg (processFiles E env s) = js ''Error: '' @ message e)
       \<and> (fetched env = Resolved res \<and> \<not> ok res \<and> resp_body res = Json (Obj ps) \<and>
          map_of ps (js ''detail'') = Some (Str d) \<and> d \<noteq> [] \<longrightarrow>
            toast_msg (processFiles E env s) = js ''Error: '' @ d)
       \<and> (fetched env = Resolved res \<and> \<not> ok res \<and> resp_body res = Json v \<and>
          get E v (js ''detail'') = Inr (Str d) \<and> d \<noteq> [] \<longrightarrow>
            toast_msg (processFiles E env s) = js ''Error: '' @ d)
       \<and> (fetched env = Resolved res \<and> \<not> ok res \<and> resp_body res = Json v \<and>
          get E v (js ''detail'') = Inr x \<and> truthy x \<and> toStr E x = Inr t \<longrightarrow>
            toast_msg (processFiles E env s) = js ''Error: '' @ t)
       \<and> (fetched env = Resolved res \<and> \<not> ok res \<and> resp_body res = Json v \<and>
          get E v (js ''detail'') = Inr x \<and> truthy x \<and> toStr E x = Inl e \<longrightarrow>
            toast_msg (processFiles E env s) = js ''Error: '' @ message e)
       \<and> (fetched env = Resolved res \<and> \<not> ok res \<and>
          (resp_body res = Invalid e \<or>
           resp_body res = Json v \<and> get E v (js ''detail'') = Inr x \<and> \<not> truthy x) \<longrightarrow>
            toast_msg (processFiles E env s) = js ''Error: HTTP '' @ decimal (resp_status res))
       \<and> (fetched env = Resolved res \<and> \<not> ok res \<and> resp_body res = Json v \<and>
          get E v (js ''detail'') = Inl e \<longrightarrow>
            toast_msg (processFiles E env s) = js ''Error: '' @ message e)
       \<and> (fetched env = Resolved res \<and> \<not> ok res \<and> resp_body res = Json Null \<longrightarrow>
            toast_msg (processFiles E env s)
              = js ''Error: '' @ nullishReadMessage E Null (js ''detail''))
       \<and> (fetched env = Resolved res \<and> ok res \<and> resp_body res = Invalid e \<longrightarrow>
            toast_msg (processFiles E env s) = js ''Error: '' @ message e)
       \<and> (fetched env = Resolved res \<and> ok res \<and> resp_body res = Json body \<and>
          get E body (js ''results'') = Inr r \<and> (\<not> truthy r \<or> r = Arr []) \<longrightarrow>
            toast_msg (processFiles E env s) = js ''Error: No OCR results returned from server'')
       \<and> (fetched env = Resolved res \<and> ok res \<and> resp_body res = Json body \<and>
          first_ocr_result E body = Inl e \<longrightarrow>
            toast_msg (processFiles E env s) = js ''Error: '' @ message e)
       \<and> (fetched env = Resolved res \<and> ok res \<and> resp_body res = Json Null \<longrightarrow>
            toast_msg (processFiles E env s)
              = js ''Error: '' @ nullishReadMessage E Null (js ''results''))"
proof -
  let ?s = "before_try env s"
  let ?toast = "toast_msg (processFiles E env s)"
  have caught: "\<And>err. snd (try_block E env ?s) = Some err \<Longrightarrow> ?toast = js ''Error: '' @ message err"
    using processFiles_caught [OF assms] by blast
  have c0: "snd (try_block E env ?s) = Some err \<longrightarrow> ?toast = js ''Error: '' @ message err"
    using caught by blast
  have c1: "fetched env = Rejected e \<longrightarrow> ?toast = js ''Error: '' @ message e"
    using caught try_block_rejected by blast
  have bad: "\<And>err. fetched env = Resolved res \<Longrightarrow> \<not> ok res \<Longrightarrow> failure_of E res = err \<Longrightarrow>
               ?toast = js ''Error: '' @ message err"
    using caught try_block_not_ok by blast
  have truthy_detail: "\<And>v x t. fetched env = Resolved res \<Longrightarrow> \<not> ok res \<Longrightarrow>
          resp_body res = Json v \<Longrightarrow> get E v (js ''detail'') = Inr x \<Longrightarrow> truthy x \<Longrightarrow>
          toStr E x = Inr t \<Longrightarrow> ?toast = js ''Error: '' @ t"
  proof -
    fix v x t
    assume a: "fetched env = Resolved res" "\<not> ok res"
      and b: "resp_body res = Json v" "get E v (js ''detail'') = Inr x" "truthy x" "toStr E x = Inr t"
    from bad [OF a failure_of_detail [OF b]] show "?toast = js ''Error: '' @ t" by simp
  qed
  have c2: "fetched env = Resolved res \<and> \<not> ok res \<and> resp_body res = Json (Obj ps) \<and>
          map_of ps (js ''detail'') = Some (Str d) \<and> d \<noteq> [] \<longrightarrow> ?toast = js ''Error: '' @ d"
    using truthy_detail [of "Obj ps" "Str d" d] by simp
  have c3: "fetched env = Resolved res \<and> \<not> ok res \<and> resp_body res = Json v \<and>
          get E v (js ''detail'') = Inr (Str d) \<and> d \<noteq> [] \<longrightarrow> ?toast = js ''Error: '' @ d"
    using truthy_detail [of v "Str d" d] by simp
  have c4: "fetched env = Resolved res \<and> \<not> ok res \<and> resp_body res = Json v \<and>
          get E v (js ''detail'') = Inr x \<and> truthy x \<and> toStr E x = Inr t \<longrightarrow>
            ?toast = js ''Error: '' @ t"
    using truthy_detail by blast
  have c5: "fetched env = Resolved res \<and> \<not> ok res \<and> resp_body res = Json v \<and>
          get E v (js ''detail'') = Inr x \<and> truthy x \<and> toStr E x = Inl e \<longrightarrow>
            ?toast = js ''Error: '' @ message e"
    using bad failure_of_detail_throws by blast
  have c6: "fetched env = Resolved res \<and> \<not> ok res \<and>
          (resp_body res = Invalid e \<or>
           resp_body res = Json v \<and> get E v (js ''detail'') = Inr x \<and> \<not> truthy x) \<longrightarrow>
            ?toast = js ''Error: HTTP '' @ decimal (resp_status res)"
  proof (intro impI, elim conjE)
    assume a: "fetched env = Resolved res" "\<not> ok res"
      and b: "resp_body res = Invalid e \<or>
           resp_body res = Json v \<and> get E v (js ''detail'') = Inr x \<and> \<not> truthy x"
    from b have "failure_of E res = Error (js ''HTTP '' @ decimal (resp_status res))"
      using failure_of_invalid failure_of_falsy_detail by blast
    from bad [OF a this] show "?toast = js ''Error: HTTP '' @ decimal (resp_status res)"
      by (simp add: js_def)
  qed
  have c7: "fetched env = Resolved res \<and> \<not> ok res \<and> resp_body res = Json v \<and>
          get E v (js ''detail'') = Inl e \<longrightarrow> ?toast = js ''Error: '' @ message e"
    using bad failure_of_unreadable by blast
  have c8: "fetched env = Resolved res \<and> \<not> ok res \<and> resp_body res = Json Null \<longrightarrow>
            ?toast = js ''Error: '' @ nullishReadMessage E Null (js ''detail'')"
  proof (intro impI, elim conjE)
    assume a: "fetched env = Resolved res" "\<not> ok res" and b: "resp_body res = Json Null"
    have "get E Null (js ''detail'') = Inl (TypeError (nullishReadMessage E Null (js ''detail'')))"
      by simp
    from bad [OF a failure_of_unreadable [OF b this]]
    show "?toast = js ''Error: '' @ nullishReadMessage E Null (js ''detail'')" by simp
  qed
  have good: "\<And>body err. fetched env = Resolved res \<Longrightarrow> ok res \<Longrightarrow> resp_body res = Json body \<Longrightarrow>
                first_ocr_result E body = Inl err \<Longrightarrow> ?toast = js ''Error: '' @ message err"
    using caught try_block_no_result by blast
  have c9: "fetched env = Resolved res \<and> ok res \<and> resp_body res = Invalid e \<longrightarrow>
            ?toast = js ''Error: '' @ message e"
    using caught try_block_invalid by blast
  have c10: "fetched env = Resolved res \<and> ok res \<and> resp_body res = Json body \<and>
          get E body (js ''results'') = Inr r \<and> (\<not> truthy r \<or> r = Arr []) \<longrightarrow>
            ?toast = js ''Error: No OCR results returned from server''"
  proof (intro impI, elim conjE)
    assume a: "fetched env = Resolved res" "ok res" "resp_body res = Json body"
      and b: "get E body (js ''results'') = Inr r" "\<not> truthy r \<or> r = Arr []"
    from good [OF a first_ocr_result_none [OF b]]
    show "?toast = js ''Error: No OCR results returned from server''"
      by (simp add: js_def)
  qed
  have c11: "fetched env = Resolved res \<and> ok res \<and> resp_body res = Json body \<and>
          first_ocr_result E body = Inl e \<longrightarrow> ?toast = js ''Error: '' @ message e"
    using good by blast
  have c12: "fetched env = Resolved res \<and> ok res \<and> resp_body res = Json Null \<longrightarrow>
            ?toast = js ''Error: '' @ nullishReadMessage E Null (js ''results'')"
  proof (intro impI, elim conjE)
    assume a: "fetched env = Resolved res" "ok res" "resp_body res = Json Null"
    have "get E Null (js ''results'') = Inl (TypeError (nullishReadMessage E Null (js ''results'')))"
      by simp
    from good [OF a first_ocr_result_unreadable [OF this]]
    show "?toast = js ''Error: '' @ nullishReadMessage E Null (js ''results'')" by simp
  qed
  from c0 c1 c2 c3 c4 c5 c6 c7 c8 c9 c10 c11 c12 show ?thesis by blast
qed

text \<open>
  C3, amended, on one selected file: the example of the specification (a non-2xx response
  with the detail \<^verbatim>\<open>file too large\<close>), a status 500 whose body is not JSON, a rejected
  request, a 2xx response with an empty array of results, non-2xx responses whose body is
  \<^verbatim>\<open>null\<close>, the number 5, and an object as detail, 2xx responses whose body is not JSON
  and \<^verbatim>\<open>null\<close>, and a 2xx response whose first result holds no OCR result, so that
  rendering throws.
\<close>
theorem failure_message_witness:
  "selectedFiles one_selected \<noteq> []
   \<and> \<not> ok \<lparr>resp_status = 413, resp_body = detail_body (Str (js ''file too large''))\<rparr>
   \<and> toast_msg (processFiles sample_engine
        (responded 413 (detail_body (Str (js ''file too large'')))) one_selected)
       = js ''Error: file too large''
   \<and> toast_msg (processFiles sample_engine
        (responded 500 (Invalid (SyntaxError (js ''Unexpected token <'')))) one_selected)
       = js ''Error: HTTP 500''
   \<and> toast_msg (processFiles sample_engine
        (answer (Rejected (TypeError (js ''Failed to fetch'')))) one_selected)
       = js ''Error: Failed to fetch''
   \<and> toast_msg (processFiles sample_engine (responded 200 (results_body [])) one_selected)
       = js ''Error: No OCR results returned from server''
   \<and> toast_msg (processFiles sample_engine (responded 400 (Json Null)) one_selected)
       = js ''Error: Cannot read properties of null (reading '' @ [0x27] @ js ''detail''
         @ [0x27] @ js '')''
   \<and> toast_msg (processFiles sample_engine (responded 400 (Json (Num (Fin 5)))) one_selected)
       = js ''Error: HTTP 400''
   \<and> toast_msg (processFiles sample_engine
        (responded 422 (detail_body (Obj [(js ''msg'', Str (js ''bad''))]))) one_selected)
       = js ''Error: [object Object]''
   \<and> ok \<lparr>resp_status = 200, resp_body = Invalid (SyntaxError (js ''Unexpected token <''))\<rparr>
   \<and> toast_msg (processFiles sample_engine
        (responded 200 (Invalid (SyntaxError (js ''Unexpected token <'')))) one_selected)
       = js ''Error: Unexpected token <''
   \<and> toast_msg (processFiles sample_engine (responded 200 (Json Null)) one_selected)
       = js ''Error: Cannot read properties of null (reading '' @ [0x27] @ js ''results''
         @ [0x27] @ js '')''
   \<and> snd (try_block sample_engine (responded 200 (results_body [Obj []]))
          (before_try (responded 200 (results_body [Obj []])) one_selected))
       = Some (TypeError (js ''Cannot read properties of undefined (reading '' @ [0x27]
                          @ js ''average_confidence'' @ [0x27] @ js '')''))
   \<and> toast_msg (processFiles sample_engine (responded 200 (results_body [Obj []])) one_selected)
       = js ''Error: Cannot read properties of undefined (reading '' @ [0x27]
         @ js ''average_confidence'' @ [0x27] @ js '')''"
proof -
  note ne = one_selected_nonempty
  have a: "\<not> ok \<lparr>resp_status = 413, resp_body = detail_body (Str (js ''file too large''))\<rparr>"
    by (simp add: ok_def)
  have "toast_msg (processFiles sample_engine
        (responded 413 (detail_body (Str (js ''file too large'')))) one_selected)
       = js ''Error: '' @ js ''file too large''"
    using failure_message [OF ne, where E = sample_engine
        and env = "responded 413 (detail_body (Str (js ''file too large'')))"
        and res = "\<lparr>resp_status = 413, resp_body = detail_body (Str (js ''file too large''))\<rparr>"
        and ps = "[(js ''detail'', Str (js ''file too large''))]" and d = "js ''file too large''"] a
    by (simp add: detail_body_def js_def)
  then have b: "toast_msg (processFiles sample_engine
        (responded 413 (detail_body (Str (js ''file too large'')))) one_selected)
       = js ''Error: file too large''"
    by (simp add: js_def)
  have "toast_msg (processFiles sample_engine
        (responded 500 (Invalid (SyntaxError (js ''Unexpected token <'')))) one_selected)
       = js ''Error: HTTP '' @ decimal 500"
    using failure_message [OF ne, where E = sample_engine
        and env = "responded 500 (Invalid (SyntaxError (js ''Unexpected token <'')))"
        and res = "\<lparr>resp_status = 500, resp_body = Invalid (SyntaxError (js ''Unexpected token <''))\<rparr>"
        and e = "SyntaxError (js ''Unexpected token <'')"]
    by (simp add: ok_def)
  then have c: "toast_msg (processFiles sample_engine
        (responded 500 (Invalid (SyntaxError (js ''Unexpected token <'')))) one_selected)
       = js ''Error: HTTP 500''"
    by (simp add: js_def decimal.simps)
  have "toast_msg (processFiles sample_engine
        (answer (Rejected (TypeError (js ''Failed to fetch'')))) one_selected)
       = js ''Error: '' @ message (TypeError (js ''Failed to fetch''))"
    using failure_message [OF ne, where E = sample_engine
        and env = "answer (Rejected (TypeError (js ''Failed to fetch'')))"
        and e = "TypeError (js ''Failed to fetch'')"]
    by simp
  then have d: "toast_msg (processFiles sample_engine
        (answer (Rejected (TypeError (js ''Failed to fetch'')))) one_selected)
       = js ''Error: Failed to fetch''"
    by (simp add: js_def)
  have e: "toast_msg (processFiles sample_engine (responded 200 (results_body [])) one_selected)
       = js ''Error: No OCR results returned from server''"
    using failure_message [OF ne, where E = sample_engine
        and env = "responded 200 (results_body [])"
        and res = "\<lparr>resp_status = 200, resp_body = results_body []\<rparr>"
        and body = "Obj [(js ''results'', Arr [])]" and r = "Arr []"]
    by (simp add: ok_def results_body_def)
  have "toast_msg (processFiles sample_engine (responded 400 (Json Null)) one_selected)
       = js ''Error: '' @ nullishReadMessage sample_engine Null (js ''detail'')"
    using failure_message [OF ne, where E = sample_engine
        and env = "responded 400 (Json Null)"
        and res = "\<lparr>resp_status = 400, resp_body = Json Null\<rparr>"]
    by (simp add: ok_def)
  then have f: "toast_msg (processFiles sample_engine (responded 400 (Json Null)) one_selected)
       = js ''Error: Cannot read properties of null (reading '' @ [0x27] @ js ''detail''
         @ [0x27] @ js '')''"
    by (simp add: sample_engine_def js_def)
  have "toast_msg (processFiles sample_engine (responded 400 (Json (Num (Fin 5)))) one_selected)
       = js ''Error: HTTP '' @ decimal 400"
    using failure_message [OF ne, where E = sample_engine
        and env = "responded 400 (Json (Num (Fin 5)))"
        and res = "\<lparr>resp_status = 400, resp_body = Json (Num (Fin 5))\<rparr>"
        and v = "Num (Fin 5)" and x = Undefined]
    by (simp add: ok_def)
  then have g: "toast_msg (processFiles sample_engine (responded 400 (Json (Num (Fin 5)))) one_selected)
       = js ''Error: HTTP 400''"
    by (simp add: js_def decimal.simps)
  have "toast_msg (processFiles sample_engine
        (responded 422 (detail_body (Obj [(js ''msg'', Str (js ''bad''))]))) one_selected)
       = js ''Error: '' @ js ''[object Object]''"
    using failure_message [OF ne, where E = sample_engine
        and env = "responded 422 (detail_body (Obj [(js ''msg'', Str (js ''bad''))]))"
        and res = "\<lparr>resp_status = 422, resp_body = detail_body (Obj [(js ''msg'', Str (js ''bad''))])\<rparr>"
        and v = "Obj [(js ''detail'', Obj [(js ''msg'', Str (js ''bad''))])]"
        and x = "Obj [(js ''msg'', Str (js ''bad''))]" and t = "js ''[object Object]''"]
    by (simp add: ok_def detail_body_def sample_engine_def)
  then have h: "toast_msg (processFiles sample_engine
        (responded 422 (detail_body (Obj [(js ''msg'', Str (js ''bad''))]))) one_selected)
       = js ''Error: [object Object]''"
    by (simp add: js_def)
  have k: "ok \<lparr>resp_status = 200, resp_body = Invalid (SyntaxError (js ''Unexpected token <''))\<rparr>"
    by (simp add: ok_def)
  have "toast_msg (processFiles sample_engine
        (responded 200 (Invalid (SyntaxError (js ''Unexpected token <'')))) one_selected)
       = js ''Error: '' @ message (SyntaxError (js ''Unexpected token <''))"
    using failure_message [OF ne, where E = sample_engine
        and env = "responded 200 (Invalid (SyntaxError (js ''Unexpected token <'')))"
        and res = "\<lparr>resp_status = 200, resp_body = Invalid (SyntaxError (js ''Unexpected token <''))\<rparr>"
        and e = "SyntaxError (js ''Unexpected token <'')"] k
    by simp
  then have l: "toast_msg (processFiles sample_engine
        (responded 200 (Invalid (SyntaxError (js ''Unexpected token <'')))) one_selected)
       = js ''Error: Unexpected token <''"
    by (simp add: js_def)
  have "toast_msg (processFiles sample_engine (responded 200 (Json Null)) one_selected)
       = js ''Error: '' @ nullishReadMessage sample_engine Null (js ''results'')"
    using failure_message [OF ne, where E = sample_engine
        and env = "responded 200 (Json Null)"
        and res = "\<lparr>resp_status = 200, resp_body = Json Null\<rparr>"]
    by (simp add: ok_def)
  then have m: "toast_msg (processFiles sample_engine (responded 200 (Json Null)) one_selected)
       = js ''Error: Cannot read properties of null (reading '' @ [0x27] @ js ''results''
         @ [0x27] @ js '')''"
    by (simp add: sample_engine_def js_def)
  have n: "snd (try_block sample_engine (responded 200 (results_body [Obj []]))
          (before_try (responded 200 (results_body [Obj []])) one_selected))
       = Some (TypeError (js ''Cannot read properties of undefined (reading '' @ [0x27]
                          @ js ''average_confidence'' @ [0x27] @ js '')''))"
    by (simp add: run_submit run_render run_simps)
  from failure_message [OF ne, where E = sample_engine
        and env = "responded 200 (results_body [Obj []])"
        and err = "TypeError (js ''Cannot read properties of undefined (reading '' @ [0x27]
                          @ js ''average_confidence'' @ [0x27] @ js '')'')"] n
  have "toast_msg (processFiles sample_engine (responded 200 (results_body [Obj []])) one_selected)
       = js ''Error: '' @ (js ''Cannot read properties of undefined (reading '' @ [0x27]
         @ js ''average_confidence'' @ [0x27] @ js '')'')"
    by simp
  then have p: "toast_msg (processFiles sample_engine (responded 200 (results_body [Obj []])) one_selected)
       = js ''Error: Cannot read properties of undefined (reading '' @ [0x27]
         @ js ''average_confidence'' @ [0x27] @ js '')''"
    by (simp add: js_def)
  from ne a b c d e f g h k l m n p show ?thesis by blast
qed

subsection \<open>C4: submission with nothing selected\<close>

text \<open>
  C4. With an empty pending list \<^verbatim>\<open>processFiles\<close> changes nothing at all: no request is
  recorded, the three panels, the pending list and the current result are as before.
\<close>
theorem processFiles_empty_noop:
  assumes "selectedFiles s = []"
  shows "processFiles E env s = s
       \<and> requests (processFiles E env s) = requests s
       \<and> panel_empty_display (processFiles E env s) = panel_empty_display s
       \<and> panel_loading_display (processFiles E env s) = panel_loading_display s
       \<and> panel_results_display (processFiles E env s) = panel_results_display s
       \<and> selectedFiles (processFiles E env s) = selectedFiles s
       \<and> currentResult (processFiles E env s) = currentResult s"
  using assms by (simp add: processFiles_def)

text \<open>C4 on the page as loaded, with a server that would have answered with a result.\<close>
theorem processFiles_empty_noop_witness:
  "selectedFiles initial_state = []
   \<and> processFiles sample_engine
       (responded 200 (results_body [Obj [(js ''ocr_result'', hello_result)]])) initial_state
     = initial_state
   \<and> requests (processFiles sample_engine
       (responded 200 (results_body [Obj [(js ''ocr_result'', hello_result)]])) initial_state) = []"
proof -
  have e: "selectedFiles initial_state = []" by (simp add: initial_state_def)
  have r: "requests initial_state = []" by (simp add: initial_state_def)
  from processFiles_empty_noop [OF e, of sample_engine
         "responded 200 (results_body [Obj [(js ''ocr_result'', hello_result)]])"] e r
  show ?thesis by simp
qed

subsection \<open>C5: the per-page section\<close>

text \<open>
  C5. After \<^verbatim>\<open>renderPages\<close> the section of pages is shown (\<^verbatim>\<open>block\<close>) exactly when the
  sequence of pages has more than one entry, and hidden (\<^verbatim>\<open>none\<close>) when the sequence is
  missing, \<^verbatim>\<open>null\<close>, empty or has one entry, whatever that entry holds; a hidden section
  lists nothing, and a shown one whose rendering completed lists one entry for each page.
  The same holds of the pages of a result after a completed \<^verbatim>\<open>renderResults\<close>.
\<close>
theorem pages_section_visibility:
  "pages_section_display (fst (renderPages E (Arr ps) s))
     = (if 1 < length ps then js ''block'' else js ''none'')
   \<and> pages_section_display (fst (renderPages E Undefined s)) = js ''none''
   \<and> pages_section_display (fst (renderPages E Null s)) = js ''none''
   \<and> js ''block'' \<noteq> js ''none''
   \<and> (length ps \<le> 1 \<longrightarrow> pages_list (fst (renderPages E (Arr ps) s)) = [])
   \<and> (1 < length ps \<and> snd (renderPages E (Arr ps) s) = None \<longrightarrow>
        length (pages_list (fst (renderPages E (Arr ps) s))) = length ps)
   \<and> (snd (renderResults E data elapsed s) = None \<and> get E data (js ''pages'') = Inr (Arr ps) \<longrightarrow>
        pages_section_display (fst (renderResults E data elapsed s))
          = (if 1 < length ps then js ''block'' else js ''none''))"
proof -
  have d: "js ''block'' \<noteq> js ''none''" by (simp add: js_def)
  have r: "snd (renderResults E data elapsed s) = None \<and> get E data (js ''pages'') = Inr (Arr ps) \<longrightarrow>
        pages_section_display (fst (renderResults E data elapsed s))
          = (if 1 < length ps then js ''block'' else js ''none'')"
  proof (intro impI, elim conjE)
    assume a: "snd (renderResults E data elapsed s) = None"
      and b: "get E data (js ''pages'') = Inr (Arr ps)"
    from a have "renderResults E data elapsed s = (fst (renderResults E data elapsed s), None)"
      by (metis prod.collapse)
    from renderResults_pages [OF this] b obtain s1 where
      "renderPages E (Arr ps) s1 = (fst (renderResults E data elapsed s), None)"
      by auto
    then have "fst (renderResults E data elapsed s) = fst (renderPages E (Arr ps) s1)"
      by simp
    then show "pages_section_display (fst (renderResults E data elapsed s))
          = (if 1 < length ps then js ''block'' else js ''none'')"
      by (simp only: renderPages_display_Arr)
  qed
  from renderPages_display_Arr [of E ps s] renderPages_display_missing [of E s] d
    renderPages_list_short [of ps E s] renderPages_list_long [of ps E s] r
  show ?thesis by blast
qed

text \<open>C5 on a sequence of one page, which stays hidden, and on one of two pages.\<close>
theorem pages_section_visibility_witness:
  "length [page_of 1 95 1 ''Hello''] \<le> 1
   \<and> pages_section_display (fst (renderPages sample_engine (Arr [page_of 1 95 1 ''Hello'']) initial_state))
       = js ''none''
   \<and> pages_list (fst (renderPages sample_engine (Arr [page_of 1 95 1 ''Hello'']) initial_state)) = []
   \<and> 1 < length [page_of 1 95 1 ''Hello'', page_of 2 90 0 []]
   \<and> snd (renderPages sample_engine (Arr [page_of 1 95 1 ''Hello'', page_of 2 90 0 []]) initial_state) = None
   \<and> pages_section_display (fst (renderPages sample_engine
         (Arr [page_of 1 95 1 ''Hello'', page_of 2 90 0 []]) initial_state)) = js ''block''
   \<and> length (pages_list (fst (renderPages sample_engine
         (Arr [page_of 1 95 1 ''Hello'', page_of 2 90 0 []]) initial_state))) = 2"
proof -
  have n: "snd (renderPages sample_engine (Arr [page_of 1 95 1 ''Hello'', page_of 2 90 0 []]) initial_state) = None"
    by (simp add: run_simps)
  from pages_section_visibility [of sample_engine "[page_of 1 95 1 ''Hello'']" initial_state]
    pages_section_visibility [of sample_engine "[page_of 1 95 1 ''Hello'', page_of 2 90 0 []]" initial_state] n
  show ?thesis by simp
qed

subsection \<open>C6: the document-type badge\<close>

text \<open>
  C6 as written fails on a flag that is present and truthy but not a boolean: with
  \<^verbatim>\<open>"is_scanned": 1\<close> the badge of a scanned document is rendered, since the source
  tests \<^verbatim>\<open>data.is_scanned !== undefined\<close> and then the truthiness of the flag.
\<close>
theorem doc_badge_truthy_number:
  "res_doc_badge (fst (renderResults sample_engine (result_of (Num (Fin 1)) []) (Fin (3 / 2)) initial_state))
     = scanned_badge
   \<and> scanned_badge \<noteq> []
   \<and> Num (Fin 1) \<noteq> Bool True \<and> Num (Fin 1) \<noteq> Bool False"
  by (simp add: run_render run_simps)

text \<open>
  C6, amended. The badge is rendered exactly when the flag is present in the payload,
  whatever its type: after a completed \<^verbatim>\<open>renderResults\<close> the badge is that of the value
  read from \<^verbatim>\<open>is_scanned\<close>, which is no badge for a missing flag, the label of a scanned
  document for a truthy flag (\<^verbatim>\<open>true\<close> in particular) and the label of a text-based PDF
  for a falsy one (\<^verbatim>\<open>false\<close>, and also \<^verbatim>\<open>null\<close>, 0 or the empty string). The two
  labels differ and neither is empty.
\<close>
theorem doc_badge_presence:
  "(snd (renderResults E data elapsed s) = None \<longrightarrow>
      (\<exists>v. get E data (js ''is_scanned'') = Inr v \<and>
           res_doc_badge (fst (renderResults E data elapsed s)) = doc_badge v))
   \<and> doc_badge Undefined = []
   \<and> (v \<noteq> Undefined \<and> truthy v \<longrightarrow> doc_badge v = scanned_badge)
   \<and> (v \<noteq> Undefined \<and> \<not> truthy v \<longrightarrow> doc_badge v = text_badge)
   \<and> doc_badge (Bool True) = scanned_badge
   \<and> doc_badge (Bool False) = text_badge
   \<and> scanned_badge \<noteq> text_badge \<and> scanned_badge \<noteq> [] \<and> text_badge \<noteq> []"
proof -
  have "snd (renderResults E data elapsed s) = None \<longrightarrow>
      (\<exists>v. get E data (js ''is_scanned'') = Inr v \<and>
           res_doc_badge (fst (renderResults E data elapsed s)) = doc_badge v)"
    using renderResults_badge [of E data elapsed s "fst (renderResults E data elapsed s)"]
    by (metis prod.collapse)
  moreover have "doc_badge Undefined = []
   \<and> (v \<noteq> Undefined \<and> truthy v \<longrightarrow> doc_badge v = scanned_badge)
   \<and> (v \<noteq> Undefined \<and> \<not> truthy v \<longrightarrow> doc_badge v = text_badge)
   \<and> doc_badge (Bool True) = scanned_badge
   \<and> doc_badge (Bool False) = text_badge"
    by (simp add: doc_badge_def)
  ultimately show ?thesis using badges_differ by blast
qed

text \<open>
  C6, amended, on the result of the specification's example, whose flag is \<^verbatim>\<open>true\<close>, and
  on results whose flag is \<^verbatim>\<open>false\<close>, \<^verbatim>\<open>null\<close> and missing.
\<close>
theorem doc_badge_presence_witness:
  "snd (renderResults sample_engine hello_result (Fin (3 / 2)) initial_state) = None
   \<and> get sample_engine hello_result (js ''is_scanned'') = Inr (Bool True)
   \<and> res_doc_badge (fst (renderResults sample_engine hello_result (Fin (3 / 2)) initial_state))
       = scanned_badge
   \<and> res_doc_badge (fst (renderResults sample_engine (result_of (Bool False) []) (Fin (3 / 2)) initial_state))
       = text_badge
   \<and> res_doc_badge (fst (renderResults sample_engine (result_of Null []) (Fin (3 / 2)) initial_state))
       = text_badge
   \<and> res_doc_badge (fst (renderResults sample_engine (Obj []) (Fin (3 / 2)) initial_state)) = []"
proof -
  have n: "snd (renderResults sample_engine hello_result (Fin (3 / 2)) initial_state) = None"
    by (simp add: run_render run_simps)
  have g: "get sample_engine hello_result (js ''is_scanned'') = Inr (Bool True)"
    by (simp add: hello_result_def result_of_def js_def)
  from doc_badge_presence [of sample_engine hello_result "Fin (3 / 2)" initial_state] n g
  have a: "res_doc_badge (fst (renderResults sample_engine hello_result (Fin (3 / 2)) initial_state))
       = scanned_badge"
    by auto
  have b: "res_doc_badge (fst (renderResults sample_engine (result_of (Bool False) []) (Fin (3 / 2)) initial_state))
       = text_badge
   \<and> res_doc_badge (fst (renderResults sample_engine (result_of Null []) (Fin (3 / 2)) initial_state))
       = text_badge
   \<and> res_doc_badge (fst (renderResults sample_engine (Obj []) (Fin (3 / 2)) initial_state)) = []"
    by (simp add: run_render run_simps)
  from n g a b show ?thesis by blast
qed

subsection \<open>C7: removing at an index out of bounds\<close>

text \<open>
  C7 as written fails on a negative index: \<^verbatim>\<open>splice\<close> counts it from the end, so
  \<^verbatim>\<open>removeFile(-1)\<close> on a list of two files removes the second one.
\<close>
theorem removeFile_negative_index:
  "selectedFiles (addFiles sample_engine [file_a, file_b] initial_state) = [file_a, file_b]
   \<and> \<not> (0 \<le> (- 1 :: int) \<and>
          (- 1 :: int) < int (length (selectedFiles (addFiles sample_engine [file_a, file_b] initial_state))))
   \<and> selectedFiles (removeFile sample_engine (- 1) (addFiles sample_engine [file_a, file_b] initial_state))
       = [file_a]
   \<and> [file_a] \<noteq> [file_a, file_b]"
  by (simp add: selectedFiles_removeFile selectedFiles_addFiles initial_state_def splice1_def)

text \<open>
  C7, amended. For an index at or beyond the length of the pending list, and for any index
  on an empty list, \<^verbatim>\<open>removeFile\<close> leaves the list as it was. A negative index on a
  non-empty list removes one entry: the one that many places from the end, or the first
  one when the index reaches before the start.
\<close>
theorem removeFile_out_of_bounds:
  "(int (length (selectedFiles s)) \<le> i \<longrightarrow>
      selectedFiles (removeFile E i s) = selectedFiles s)
   \<and> (selectedFiles s = [] \<longrightarrow> selectedFiles (removeFile E i s) = [])
   \<and> (i < 0 \<and> selectedFiles s \<noteq> [] \<longrightarrow>
        selectedFiles (removeFile E i s)
          = take (nat (int (length (selectedFiles s)) + i)) (selectedFiles s)
            @ drop (Suc (nat (int (length (selectedFiles s)) + i))) (selectedFiles s)
        \<and> length (selectedFiles (removeFile E i s)) = length (selectedFiles s) - 1)"
proof -
  have a: "int (length (selectedFiles s)) \<le> i \<longrightarrow> selectedFiles (removeFile E i s) = selectedFiles s"
    by (simp add: selectedFiles_removeFile splice1_beyond)
  have b: "selectedFiles s = [] \<longrightarrow> selectedFiles (removeFile E i s) = []"
    by (simp add: selectedFiles_removeFile splice1_def Let_def)
  have c: "i < 0 \<and> selectedFiles s \<noteq> [] \<longrightarrow>
        selectedFiles (removeFile E i s)
          = take (nat (int (length (selectedFiles s)) + i)) (selectedFiles s)
            @ drop (Suc (nat (int (length (selectedFiles s)) + i))) (selectedFiles s)
        \<and> length (selectedFiles (removeFile E i s)) = length (selectedFiles s) - 1"
  proof (intro impI, elim conjE)
    assume n: "i < 0" and ne: "selectedFiles s \<noteq> []"
    let ?xs = "selectedFiles s"
    let ?k = "nat (int (length ?xs) + i)"
    from splice1_negative [OF n ne]
    have eq: "selectedFiles (removeFile E i s) = take ?k ?xs @ drop (Suc ?k) ?xs"
      by (simp add: selectedFiles_removeFile)
    from n ne have "?k < length ?xs" by (cases ?xs) auto
    from length_without [OF this]
    have "length (take ?k ?xs @ drop (Suc ?k) ?xs) = length ?xs - 1" .
    with eq show "selectedFiles (removeFile E i s) = take ?k ?xs @ drop (Suc ?k) ?xs
        \<and> length (selectedFiles (removeFile E i s)) = length ?xs - 1"
      by simp
  qed
  from a b c show ?thesis by blast
qed

text \<open>C7, amended, on a list of two files, at the indices 2, 7, -2 and -5.\<close>
theorem removeFile_out_of_bounds_witness:
  "int (length (selectedFiles (addFiles sample_engine [file_a, file_b] initial_state))) \<le> 2
   \<and> selectedFiles (removeFile sample_engine 2 (addFiles sample_engine [file_a, file_b] initial_state))
       = [file_a, file_b]
   \<and> selectedFiles (removeFile sample_engine 7 (addFiles sample_engine [file_a, file_b] initial_state))
       = [file_a, file_b]
   \<and> (- 2 :: int) < 0
   \<and> selectedFiles (addFiles sample_engine [file_a, file_b] initial_state) \<noteq> []
   \<and> selectedFiles (removeFile sample_engine (- 2) (addFiles sample_engine [file_a, file_b] initial_state))
       = [file_b]
   \<and> selectedFiles (removeFile sample_engine (- 5) (addFiles sample_engine [file_a, file_b] initial_state))
       = [file_b]"
  using removeFile_out_of_bounds [of "addFiles sample_engine [file_a, file_b] initial_state" 2 sample_engine]
    removeFile_out_of_bounds [of "addFiles sample_engine [file_a, file_b] initial_state" 7 sample_engine]
    removeFile_out_of_bounds [of "addFiles sample_engine [file_a, file_b] initial_state" "- 2" sample_engine]
    removeFile_out_of_bounds [of "addFiles sample_engine [file_a, file_b] initial_state" "- 5" sample_engine]
  by (simp add: two_selected)

subsection \<open>C8: adding, then removing at a valid index\<close>

text \<open>
  C8. \<^verbatim>\<open>addFiles\<close> appends the files, in order, to the pending list. Removing then at a
  valid index \<open>i\<close> of the list of \<open>N\<close> files gives a list of \<open>N - 1\<close> files: the
  entries before \<open>i\<close> stay where they were, each later entry moves one place down, and
  the entry at \<open>i\<close> is the one left out.
\<close>
theorem add_then_remove:
  assumes "0 \<le> i" and "i < int (length (selectedFiles s @ files))"
  shows "selectedFiles (addFiles E files s) = selectedFiles s @ files
       \<and> selectedFiles (removeFile E i (addFiles E files s))
           = take (nat i) (selectedFiles s @ files) @ drop (Suc (nat i)) (selectedFiles s @ files)
       \<and> length (selectedFiles (removeFile E i (addFiles E files s)))
           = length (selectedFiles s @ files) - 1
       \<and> (\<forall>j. j < nat i \<longrightarrow>
             selectedFiles (removeFile E i (addFiles E files s)) ! j = (selectedFiles s @ files) ! j)
       \<and> (\<forall>j. nat i \<le> j \<and> j < length (selectedFiles s @ files) - 1 \<longrightarrow>
             selectedFiles (removeFile E i (addFiles E files s)) ! j
               = (selectedFiles s @ files) ! Suc j)"
proof -
  let ?xs = "selectedFiles s @ files"
  let ?ys = "selectedFiles (removeFile E i (addFiles E files s))"
  from assms have k: "nat i < length ?xs" by simp
  have eq: "?ys = take (nat i) ?xs @ drop (Suc (nat i)) ?xs"
    using splice1_inside [OF assms]
    by (simp add: selectedFiles_removeFile selectedFiles_addFiles)
  have first: "selectedFiles (addFiles E files s) = ?xs"
    by (simp add: selectedFiles_addFiles)
  from length_without [OF k] eq have len: "length ?ys = length ?xs - 1"
    by (simp only:)
  have before: "\<forall>j. j < nat i \<longrightarrow> ?ys ! j = ?xs ! j"
  proof (intro allI impI)
    fix j assume "j < nat i"
    with k have "j < length ?xs - 1" by simp
    from nth_without [OF k this] \<open>j < nat i\<close> eq show "?ys ! j = ?xs ! j" by simp
  qed
  have after: "\<forall>j. nat i \<le> j \<and> j < length ?xs - 1 \<longrightarrow> ?ys ! j = ?xs ! Suc j"
  proof (intro allI impI, elim conjE)
    fix j assume "nat i \<le> j" and "j < length ?xs - 1"
    from nth_without [OF k this(2)] \<open>nat i \<le> j\<close> eq show "?ys ! j = ?xs ! Suc j" by simp
  qed
  from first eq len before after show ?thesis
    by blast
qed

text \<open>C8 on three files added to the empty list, removing the one at index 1.\<close>
theorem add_then_remove_witness:
  "(0 :: int) \<le> 1
   \<and> (1 :: int) < int (length (selectedFiles initial_state @ [file_a, file_b, file_c]))
   \<and> selectedFiles (addFiles sample_engine [file_a, file_b, file_c] initial_state)
       = [file_a, file_b, file_c]
   \<and> selectedFiles (removeFile sample_engine 1
        (addFiles sample_engine [file_a, file_b, file_c] initial_state)) = [file_a, file_c]
   \<and> length (selectedFiles (removeFile sample_engine 1
        (addFiles sample_engine [file_a, file_b, file_c] initial_state))) = 2"
proof -
  have e: "selectedFiles initial_state = []" by (simp add: initial_state_def)
  have a: "(0 :: int) \<le> 1" by simp
  have b: "(1 :: int) < int (length (selectedFiles initial_state @ [file_a, file_b, file_c]))"
    by (simp add: e)
  from add_then_remove [OF a b, of sample_engine] a b e show ?thesis by simp
qed

subsection \<open>C9: the trigger control after an attempt\<close>

text \<open>
  C9. An attempt (a call with a non-empty pending list) first disables the control and
  shows the processing label; however the attempt ends, with whatever the environment
  answered, the control is enabled again and carries its default label.
\<close>
theorem processFiles_restores_button:
  assumes "selectedFiles s \<noteq> []"
  shows "processBtn_disabled (before_try env s) = True
       \<and> processBtn_innerHTML (before_try env s) = ProcessingMarkup
       \<and> processBtn_disabled (processFiles E env s) = False
       \<and> processBtn_innerHTML (processFiles E env s) = DefaultMarkup"
  using assms by (simp add: processFiles_def before_try_button)

text \<open>
  C9 on the four ways an attempt ends: a result is shown, the request is rejected, the
  status is not 2xx, the array of results is empty.
\<close>
theorem processFiles_restores_button_witness:
  "selectedFiles one_selected \<noteq> []
   \<and> panel_results_display (processFiles sample_engine
        (responded 200 (results_body [Obj [(js ''ocr_result'', hello_result)]])) one_selected)
       = js ''block''
   \<and> processBtn_disabled (processFiles sample_engine
        (responded 200 (results_body [Obj [(js ''ocr_result'', hello_result)]])) one_selected) = False
   \<and> processBtn_innerHTML (processFiles sample_engine
        (responded 200 (results_body [Obj [(js ''ocr_result'', hello_result)]])) one_selected)
       = DefaultMarkup
   \<and> processBtn_disabled (processFiles sample_engine
        (answer (Rejected (TypeError (js ''Failed to fetch'')))) one_selected) = False
   \<and> processBtn_innerHTML (processFiles sample_engine
        (answer (Rejected (TypeError (js ''Failed to fetch'')))) one_selected) = DefaultMarkup
   \<and> processBtn_disabled (processFiles sample_engine
        (responded 500 (detail_body (Str (js ''boom'')))) one_selected) = False
   \<and> processBtn_innerHTML (processFiles sample_engine
        (responded 500 (detail_body (Str (js ''boom'')))) one_selected) = DefaultMarkup
   \<and> processBtn_disabled (processFiles sample_engine
        (responded 200 (results_body [])) one_selected) = False
   \<and> processBtn_innerHTML (processFiles sample_engine
        (responded 200 (results_body [])) one_selected) = DefaultMarkup"
proof -
  note ne = one_selected_nonempty
  have shown: "panel_results_display (processFiles sample_engine
        (responded 200 (results_body [Obj [(js ''ocr_result'', hello_result)]])) one_selected)
       = js ''block''"
    by (simp add: run_submit run_render run_simps)
  from shown ne
    processFiles_restores_button [OF ne, of
      "responded 200 (results_body [Obj [(js ''ocr_result'', hello_result)]])" sample_engine]
    processFiles_restores_button [OF ne, of
      "answer (Rejected (TypeError (js ''Failed to fetch'')))" sample_engine]
    processFiles_restores_button [OF ne, of
      "responded 500 (detail_body (Str (js ''boom'')))" sample_engine]
    processFiles_restores_button [OF ne, of "responded 200 (results_body [])" sample_engine]
  show ?thesis by blast
qed

subsection \<open>C10: the current result after a failed attempt\<close>

text \<open>
  C10. When the request is rejected, or the response is not 2xx, or a 2xx response has no
  results or an empty array of results, the current result after \<^verbatim>\<open>processFiles\<close> is
  the one before.
\<close>
theorem failed_attempt_keeps_result:
  "(fetched env = Rejected e \<longrightarrow> currentResult (processFiles E env s) = currentResult s)
   \<and> (fetched env = Resolved res \<and> \<not> ok res \<longrightarrow>
        currentResult (processFiles E env s) = currentResult s)
   \<and> (fetched env = Resolved res \<and> ok res \<and> resp_body res = Json body \<and>
      get E body (js ''results'') = Inr r \<and> (\<not> truthy r \<or> r = Arr []) \<longrightarrow>
        currentResult (processFiles E env s) = currentResult s)"
proof (cases "selectedFiles s = []")
  case True
  then show ?thesis by (simp add: processFiles_def)
next
  case False
  let ?s = "before_try env s"
  have kept: "\<And>err. snd (try_block E env ?s) = Some err \<and>
                 currentResult (fst (try_block E env ?s)) = currentResult ?s \<Longrightarrow>
               currentResult (processFiles E env s) = currentResult s"
    using processFiles_caught [OF False] by simp
  have a: "fetched env = Rejected e \<longrightarrow> currentResult (processFiles E env s) = currentResult s"
    using kept try_block_rejected by blast
  have b: "fetched env = Resolved res \<and> \<not> ok res \<longrightarrow>
        currentResult (processFiles E env s) = currentResult s"
    using kept try_block_not_ok by blast
  have c: "fetched env = Resolved res \<and> ok res \<and> resp_body res = Json body \<and>
      get E body (js ''results'') = Inr r \<and> (\<not> truthy r \<or> r = Arr []) \<longrightarrow>
        currentResult (processFiles E env s) = currentResult s"
  proof (intro impI, elim conjE)
    assume x: "fetched env = Resolved res" "ok res" "resp_body res = Json body"
      and y: "get E body (js ''results'') = Inr r" "\<not> truthy r \<or> r = Arr []"
    from try_block_no_result [OF x first_ocr_result_none [OF y]] kept
    show "currentResult (processFiles E env s) = currentResult s" by blast
  qed
  from a b c show ?thesis by blast
qed

text \<open>C10 on a page that holds an earlier result, for each of the three failures.\<close>
theorem failed_attempt_keeps_result_witness:
  "currentResult (processFiles sample_engine (answer (Rejected (TypeError (js ''Failed to fetch''))))
      (one_selected\<lparr>currentResult := hello_result\<rparr>)) = hello_result
   \<and> \<not> ok \<lparr>resp_status = 500, resp_body = detail_body (Str (js ''boom''))\<rparr>
   \<and> currentResult (processFiles sample_engine (responded 500 (detail_body (Str (js ''boom''))))
      (one_selected\<lparr>currentResult := hello_result\<rparr>)) = hello_result
   \<and> ok \<lparr>resp_status = 200, resp_body = results_body []\<rparr>
   \<and> currentResult (processFiles sample_engine (responded 200 (results_body []))
      (one_selected\<lparr>currentResult := hello_result\<rparr>)) = hello_result"
proof -
  let ?s = "one_selected\<lparr>currentResult := hello_result\<rparr>"
  have a: "currentResult (processFiles sample_engine (answer (Rejected (TypeError (js ''Failed to fetch'')))) ?s)
             = hello_result"
    using failed_attempt_keeps_result [where E = sample_engine and s = ?s
        and env = "answer (Rejected (TypeError (js ''Failed to fetch'')))"
        and e = "TypeError (js ''Failed to fetch'')"]
    by simp
  have n: "\<not> ok \<lparr>resp_status = 500, resp_body = detail_body (Str (js ''boom''))\<rparr>"
    by (simp add: ok_def)
  have b: "currentResult (processFiles sample_engine (responded 500 (detail_body (Str (js ''boom'')))) ?s)
             = hello_result"
    using failed_attempt_keeps_result [where E = sample_engine and s = ?s
        and env = "responded 500 (detail_body (Str (js ''boom'')))"
        and res = "\<lparr>resp_status = 500, resp_body = detail_body (Str (js ''boom''))\<rparr>"] n
    by simp
  have k: "ok \<lparr>resp_status = 200, resp_body = results_body []\<rparr>"
    by (simp add: ok_def)
  have c: "currentResult (processFiles sample_engine (responded 200 (results_body [])) ?s) = hello_result"
    using failed_attempt_keeps_result [where E = sample_engine and s = ?s
        and env = "responded 200 (results_body [])"
        and res = "\<lparr>resp_status = 200, resp_body = results_body []\<rparr>"
        and body = "Obj [(js ''results'', Arr [])]" and r = "Arr []"] k
    by (simp add: results_body_def)
  from a n b k c show ?thesis by blast
qed

end
